theory Spec2Isabelle
  imports Main "HOL-Library.Sublist"
begin

section \<open>String primitives of the host language\<close>

text \<open>
  The client is TypeScript. A \<open>string\<close> is modelled as the list of its code units; the
  three string tests the client uses are \<open>startsWith\<close>, \<open>endsWith\<close> and
  \<open>includes\<close>. A value that may be \<open>undefined\<close> or \<open>null\<close> is an \<open>option\<close>.
\<close>

definition startsWith :: "string \<Rightarrow> string \<Rightarrow> bool" where
  "startsWith s p = prefix p s"

definition endsWith :: "string \<Rightarrow> string \<Rightarrow> bool" where
  "endsWith s p = suffix p s"

definition includesStr :: "string \<Rightarrow> string \<Rightarrow> bool" where
  "includesStr s p = sublist p s"

definition truthyStr :: "string \<Rightarrow> bool" where
  "truthyStr s = (s \<noteq> [])"

definition truthyOpt :: "string option \<Rightarrow> bool" where
  "truthyOpt v = (case v of None \<Rightarrow> False | Some s \<Rightarrow> truthyStr s)"

text \<open>Decimal rendering of a non-negative number, as a template literal does it.\<close>

definition digit :: "nat \<Rightarrow> char" where
  "digit d = ''0123456789ABCDEF'' ! d"

fun show_nat :: "nat \<Rightarrow> string" where
  "show_nat n = (if n < 10 then [digit n] else show_nat (n div 10) @ [digit (n mod 10)])"

declare show_nat.simps [simp del]

fun intercalate :: "'a list \<Rightarrow> 'a list list \<Rightarrow> 'a list" where
  "intercalate sep [] = []"
| "intercalate sep [x] = x"
| "intercalate sep (x # y # ys) = x @ sep @ intercalate sep (y # ys)"

subsection \<open>\<open>URLSearchParams\<close>, \<open>TextEncoder\<close>, \<open>Headers\<close>\<close>

text \<open>
  A \<open>URLSearchParams\<close> object is its ordered list of name-value pairs; \<open>append\<close> adds
  at the end, and \<open>toString\<close> is the \<open>application/x-www-form-urlencoded\<close> serializer
  of the platform: letters, digits and \<open>*-._\<close> stay, a space becomes \<open>+\<close>, every other
  byte becomes \<open>%XX\<close>. Strings stand for their UTF-8 bytes, so \<open>TextEncoder.encode\<close>
  maps each unit to its byte value.
\<close>

type_synonym bytes = "nat list"

type_synonym URLSearchParams = "(string \<times> string) list"

definition isAlnum :: "char \<Rightarrow> bool" where
  "isAlnum c = (let n = (of_char c :: nat) in
      (48 \<le> n \<and> n \<le> 57) \<or> (65 \<le> n \<and> n \<le> 90) \<or> (97 \<le> n \<and> n \<le> 122))"

definition urlencodeByte :: "char \<Rightarrow> string" where
  "urlencodeByte c =
     (if isAlnum c \<or> c \<in> set ''*-._'' then [c]
      else if c = CHR '' '' then ''+''
      else [CHR ''%'', digit (of_char c div 16), digit (of_char c mod 16)])"

definition urlencode :: "string \<Rightarrow> string" where
  "urlencode s = concat (map urlencodeByte s)"

definition URLSearchParams_toString :: "URLSearchParams \<Rightarrow> string" where
  "URLSearchParams_toString ps =
     intercalate ''&'' (map (\<lambda>kv. urlencode (fst kv) @ ''='' @ urlencode (snd kv)) ps)"

definition TextEncoder_encode :: "string \<Rightarrow> bytes" where
  "TextEncoder_encode s = map of_char s"

text \<open>
  A \<open>Headers\<close> object is the list of the entries appended to it, names as the client
  writes them (always lower case in this source). \<open>get\<close> joins the values stored under
  a name with a comma and a space, and is \<open>null\<close> when there is none.
\<close>

type_synonym Headers = "(string \<times> string) list"

definition Headers_append :: "Headers \<Rightarrow> string \<Rightarrow> string \<Rightarrow> Headers" where
  "Headers_append hs k v = hs @ [(k, v)]"

definition Headers_get :: "Headers \<Rightarrow> string \<Rightarrow> string option" where
  "Headers_get hs k =
     (case map snd (filter (\<lambda>kv. fst kv = k) hs) of
        [] \<Rightarrow> None
      | v # vs \<Rightarrow> Some (intercalate '', '' (v # vs)))"

subsection \<open>JSON values\<close>

text \<open>
  The values \<open>JSON.parse\<close> produces and \<open>JSON.stringify\<close> consumes. A number is kept
  as the text the platform prints for it (\<open>Number::toString\<close>: \<open>5\<close>, \<open>-2.5\<close>,
  \<open>1e+21\<close>, \<open>NaN\<close>, \<open>Infinity\<close>); the client never computes with the numbers of a
  body. An object is the list of its own enumerable properties in the order the platform
  enumerates them; a property read takes the first binding of the key. \<open>undefined\<close> is
  \<open>None\<close> of a \<open>json option\<close>.
\<close>

datatype json = JNull | JBool bool | JNum string | JStr string | JArr "json list"
  | JObj "(string \<times> json) list"

text \<open>Truthiness: \<open>null\<close>, \<open>false\<close>, the numbers zero and \<open>NaN\<close>, and the empty string are falsy.\<close>

fun truthy :: "json \<Rightarrow> bool" where
  "truthy JNull = False"
| "truthy (JBool b) = b"
| "truthy (JNum n) = (n \<noteq> ''0'' \<and> n \<noteq> ''NaN'')"
| "truthy (JStr s) = (s \<noteq> [])"
| "truthy (JArr xs) = True"
| "truthy (JObj kvs) = True"

definition truthyJ :: "json option \<Rightarrow> bool" where
  "truthyJ v = (case v of None \<Rightarrow> False | Some j \<Rightarrow> truthy j)"

text \<open>
  \<open>JSON.stringify\<close>: a string is quoted, with the quote and the backslash escaped, the
  five short escapes, and every other control character as a six-character unicode escape
  with lower-case hexadecimal digits; a finite number is its text, a number that is not
  finite is \<open>null\<close>.
\<close>

definition hexLower :: "nat \<Rightarrow> char" where
  "hexLower d = ''0123456789abcdef'' ! d"

definition escapeChar :: "char \<Rightarrow> string" where
  "escapeChar c =
     (let n = (of_char c :: nat) in
      if c = CHR 0x22 then [CHR 0x5C, CHR 0x22]
      else if c = CHR 0x5C then [CHR 0x5C, CHR 0x5C]
      else if n = 8 then [CHR 0x5C, CHR ''b'']
      else if n = 9 then [CHR 0x5C, CHR ''t'']
      else if n = 10 then [CHR 0x5C, CHR ''n'']
      else if n = 12 then [CHR 0x5C, CHR ''f'']
      else if n = 13 then [CHR 0x5C, CHR ''r'']
      else if n < 32 then
        [CHR 0x5C, CHR ''u'', CHR ''0'', CHR ''0'', hexLower (n div 16), hexLower (n mod 16)]
      else [c])"

definition quoteJSONString :: "string \<Rightarrow> string" where
  "quoteJSONString s = [CHR 0x22] @ concat (map escapeChar s) @ [CHR 0x22]"

fun JSON_stringify :: "json \<Rightarrow> string" where
  "JSON_stringify JNull = ''null''"
| "JSON_stringify (JBool b) = (if b then ''true'' else ''false'')"
| "JSON_stringify (JNum n) =
     (if n = ''NaN'' \<or> n = ''Infinity'' \<or> n = ''-Infinity'' then ''null'' else n)"
| "JSON_stringify (JStr s) = quoteJSONString s"
| "JSON_stringify (JArr xs) = ''['' @ intercalate '','' (map JSON_stringify xs) @ '']''"
| "JSON_stringify (JObj kvs) =
     ''{'' @ intercalate '',''
        (map (\<lambda>kv. quoteJSONString (fst kv) @ '':'' @ JSON_stringify (snd kv)) kvs) @ ''}''"

section \<open>Partition selection: \<open>getRootDomain\<close>\<close>

text \<open>
  \<^verbatim>\<open>const dualStackEc2Regions = new Set(['us-east-1', 'us-east-2', 'us-west-2',
      'eu-west-1', 'ap-south-1', 'sa-east-1']);\<close>
\<close>

definition dualStackEc2Regions :: "string set" where
  "dualStackEc2Regions =
     {''us-east-1'', ''us-east-2'', ''us-west-2'', ''eu-west-1'', ''ap-south-1'', ''sa-east-1''}"

text \<open>
  \<^verbatim>\<open>function getRootDomain(serviceId: string, region = 'us-east-1')\<close>: the default
  parameter value replaces an \<open>undefined\<close> region only.
\<close>

definition getRootDomain :: "string \<Rightarrow> string option \<Rightarrow> string" where
  "getRootDomain serviceId region_opt =
     (let region = (case region_opt of None \<Rightarrow> ''us-east-1'' | Some r \<Rightarrow> r) in
      if serviceId = ''EC2'' \<and> region \<in> dualStackEc2Regions then ''aws''
      else if startsWith region ''cn-'' then ''amazonaws.com.cn''
      else if startsWith region ''us-iso-'' then ''c2s.ic.gov''
      else if startsWith region ''us-isob-'' then ''sc2s.sgov.gov''
      else ''amazonaws.com'')"

section \<open>Data model\<close>

text \<open>
  Field names follow the source; where two structures share a field name the field carries
  a short prefix of its structure (\<open>cfg_\<close> for \<open>ApiRequestConfig\<close>, \<open>req_\<close> for
  \<open>Request\<close>, \<open>resp_\<close> for \<open>Response\<close>, \<open>cred_\<close> for \<open>Credentials\<close>,
  \<open>opt_\<close> for the constructor options, \<open>fac_\<close> for the private fields of the factory).
  Fields no code path below reads (documentation strings, checksum format, abort signal) are
  left out.
\<close>

record Credentials =
  awsAccessKeyId :: string
  awsSecretKey :: string
  sessionToken :: "string option"
  cred_region :: "string option"
  expiresAt :: "nat option"

record ApiMetadata =
  apiVersion :: string
  endpointPrefix :: string
  jsonVersion :: "string option"
  globalEndpoint :: "string option"
  protocol :: string
  serviceId :: string
  signatureVersion :: string
  signingName :: "string option"
  targetPrefix :: "string option"

text \<open>
  The body of a call is a \<open>URLSearchParams\<close>, a \<open>Uint8Array\<close>, or a plain value (a
  string is \<open>BodyValue (JStr s)\<close>, \<open>null\<close> is \<open>BodyValue JNull\<close>); an absent body is
  \<open>None\<close>.
\<close>

datatype body_value = BodyParams URLSearchParams | BodyBytes bytes | BodyValue json

fun truthyBody :: "body_value option \<Rightarrow> bool" where
  "truthyBody None = False"
| "truthyBody (Some (BodyParams ps)) = True"
| "truthyBody (Some (BodyBytes bs)) = True"
| "truthyBody (Some (BodyValue j)) = truthy j"

text \<open>
  The method of a call is one of the six methods of the declarations (the \<open>http.method\<close>
  of an operation); \<open>methodName\<close> is the string itself.
\<close>

datatype HttpMethod = POST | GET | HEAD | DELETE | PUT | PATCH

fun methodName :: "HttpMethod \<Rightarrow> string" where
  "methodName POST = ''POST''"
| "methodName GET = ''GET''"
| "methodName HEAD = ''HEAD''"
| "methodName DELETE = ''DELETE''"
| "methodName PUT = ''PUT''"
| "methodName PATCH = ''PATCH''"

record ApiRequestConfig =
  action :: string
  cfg_method :: "HttpMethod option"
  requestUri :: "string option"
  query :: "URLSearchParams option"
  cfg_headers :: "Headers option"
  cfg_body :: "body_value option"
  cfg_region :: "string option"
  cfg_skipSigning :: bool
  cfg_hostPrefix :: "string option"
  responseCode :: "int option"

record Request =
  req_method :: string
  req_headers :: Headers
  req_body :: "bytes option"

record Response =
  status :: nat
  statusText :: string
  resp_headers :: Headers
  resp_body :: string

record FetchOpts =
  urlPath :: string
  hostPrefix :: "string option"
  skipSigning :: bool
  region :: "string option"

text \<open>
  What a call can throw: \<open>new Error(message)\<close>, the \<open>AwsServiceError\<close> built from the
  response, the \<open>ServiceError\<close> object and the request id, the \<open>TypeError\<close> of a
  property read on \<open>null\<close>, the failure of a required-field extraction, and any exception
  of a collaborator (parser, credentials provider, transport, environment), kept by name
  and message.
\<close>

datatype exn =
    JsError string
  | AwsServiceError Response json "json option"
  | TypeError string
  | MissingRequiredKeys string "string list"
  | Raised string string

text \<open>One \<open>console.log\<close> call is the list of its arguments.\<close>

datatype XmlNode = XmlNode (name: string) (content: "string option") (children: "XmlNode list")

datatype log_arg = LStr string | LXml XmlNode | LResp Response | LJson json

type_synonym log_entry = "log_arg list"

section \<open>The XML document abstraction\<close>

text \<open>
  Modelled from the spec: the module \<open>encoding/xml.ts\<close> (the \<open>XmlNode\<close> class with
  \<open>first\<close>, \<open>getList\<close> and \<open>strings\<close>) is missing from the sources. The spec gives
  an XML document abstraction exposing "first matching child", "list of matching children",
  and "typed field extraction with required/optional field sets".
\<close>

definition first :: "XmlNode \<Rightarrow> string \<Rightarrow> XmlNode option" where
  "first x n = find (\<lambda>c. name c = n) (children x)"

text \<open>
  Modelled from the spec: \<open>xml.first(n, false, x => x.content)\<close>, the content of the first
  matching child when there is one, \<open>undefined\<close> otherwise; a missing child is no error
  as the child is not required.
\<close>

definition firstContent :: "XmlNode \<Rightarrow> string \<Rightarrow> json option" where
  "firstContent x n =
     (case first x n of
        None \<Rightarrow> None
      | Some c \<Rightarrow> (case content c of None \<Rightarrow> None | Some t \<Rightarrow> Some (JStr t)))"

text \<open>
  Modelled from the spec: \<open>xml.getList(outer, inner)\<close>, the list of the children named
  \<open>inner\<close> of the first child named \<open>outer\<close>; empty when there is no such child.
\<close>

definition getList :: "XmlNode \<Rightarrow> string \<Rightarrow> string \<Rightarrow> XmlNode list" where
  "getList x outer inner =
     (case first x outer of
        None \<Rightarrow> []
      | Some l \<Rightarrow> filter (\<lambda>c. name c = inner) (children l))"

text \<open>
  Modelled from the spec: \<open>node.strings({required, optional})\<close>, the typed field
  extraction. Every required key needs a child of that name, else the extraction throws;
  the result has one string property for each required key and for each optional key that
  has a child.
\<close>

definition strings :: "XmlNode \<Rightarrow> string list \<Rightarrow> string list \<Rightarrow> exn + (string \<times> json) list" where
  "strings x required optional =
     (let missing = filter (\<lambda>k. first x k = None) required in
      if missing \<noteq> [] then Inl (MissingRequiredKeys (name x) missing)
      else Inr (concat (map (\<lambda>k.
             case first x k of
               None \<Rightarrow> []
             | Some c \<Rightarrow> [(k, JStr (case content c of None \<Rightarrow> [] | Some t \<Rightarrow> t))])
           (required @ optional))))"

fun traverse :: "('a \<Rightarrow> exn + 'b) \<Rightarrow> 'a list \<Rightarrow> exn + 'b list" where
  "traverse f [] = Inr []"
| "traverse f (x # xs) =
     (case f x of
        Inl e \<Rightarrow> Inl e
      | Inr y \<Rightarrow> (case traverse f xs of Inl e \<Rightarrow> Inl e | Inr ys \<Rightarrow> Inr (y # ys)))"

text \<open>
  The collaborators outside the sources are parameters: the XML parser
  \<open>readXmlResult\<close>, the JSON parse behind \<open>response.json()\<close>, and \<open>getRequestId\<close>,
  which reads the request id from the response headers.
\<close>

record Collaborators =
  readXmlResult :: "string \<Rightarrow> exn + XmlNode"
  JSON_parse :: "string \<Rightarrow> exn + json"
  getRequestId :: "Headers \<Rightarrow> string option"

section \<open>The error classifier: \<open>handleErrorResponse\<close>\<close>

text \<open>
  \<open>throw new AwsServiceError(response, error, requestId)\<close> is the exception value
  \<open>AwsServiceError response error requestId\<close>; the class itself is outside the sources.
  Where the source passes a property it has just tested to be truthy, the model takes it out
  of its \<open>option\<close> with \<open>the\<close>: an \<open>undefined\<close> property is not truthy.
\<close>

text \<open>
  A property read \<open>v.k\<close>: on \<open>null\<close> it throws a \<open>TypeError\<close>, on an object it is the
  property or \<open>undefined\<close>, on any other value it is \<open>undefined\<close> (none of the keys
  read below is a built-in property).
\<close>

fun propOf :: "json \<Rightarrow> string \<Rightarrow> json option" where
  "propOf (JObj kvs) k = map_of kvs k"
| "propOf v k = None"

definition getProp :: "json \<Rightarrow> string \<Rightarrow> exn + json option" where
  "getProp v k =
     (if v = JNull then Inl (TypeError (''Cannot read properties of null (reading '' @ k @ '')''))
      else Inr (propOf v k))"

text \<open>Optional chaining \<open>v?.k\<close> on a value that may be \<open>undefined\<close> or \<open>null\<close>.\<close>

definition optChain :: "json option \<Rightarrow> string \<Rightarrow> json option" where
  "optChain v k =
     (case v of None \<Rightarrow> None | Some j \<Rightarrow> (if j = JNull then None else propOf j k))"

text \<open>
  The outcome of the classifier: how it completed (\<open>Inl\<close> a thrown exception, \<open>Inr ()\<close>
  a normal return), what it logged, and whether it consumed the response body.
\<close>

record ErrorOutcome =
  completion :: "exn + unit"
  logged :: "log_entry list"
  bodyUsed :: bool

definition unrecognizable :: "string option \<Rightarrow> exn" where
  "unrecognizable contentType =
     JsError (''Unrecognizable error response of type ''
        @ (case contentType of None \<Rightarrow> ''null'' | Some c \<Rightarrow> c))"

definition serviceErrorOr :: "Response \<Rightarrow> exn + (string \<times> json) list \<Rightarrow> json option \<Rightarrow> exn" where
  "serviceErrorOr response extracted requestId =
     (case extracted of Inl e \<Rightarrow> e | Inr fs \<Rightarrow> AwsServiceError response (JObj fs) requestId)"

text \<open>
  The code after the \<open>switch\<close> on the root tag: a root tag ending in \<open>Exception\<close>
  throws; otherwise control falls through to the log line (\<open>None\<close>).
\<close>

definition exceptionTag :: "Collaborators \<Rightarrow> Response \<Rightarrow> XmlNode \<Rightarrow> exn option" where
  "exceptionTag deps response xml =
     (if endsWith (name xml) ''Exception'' then
        Some (serviceErrorOr response
               (case strings xml [''Message''] [''Type''] of
                  Inl e \<Rightarrow> Inl e
                | Inr fs \<Rightarrow> Inr ((''Code'', JStr (name xml)) # fs))
               (map_option JStr (getRequestId deps (resp_headers response))))
      else None)"

text \<open>
  The \<open>switch (xml.name)\<close> with what follows it: \<open>Some e\<close> when \<open>e\<close> is thrown,
  \<open>None\<close> when control reaches \<open>console.log('Error DOM:', ...)\<close>.
\<close>

definition xmlError :: "Collaborators \<Rightarrow> Response \<Rightarrow> XmlNode \<Rightarrow> exn option" where
  "xmlError deps response xml =
     (if name xml = ''ErrorResponse'' then
        (case first xml ''Error'' of
           Some errNode \<Rightarrow>
             Some (serviceErrorOr response
                    (strings errNode [''Code'', ''Message'', ''Type''] [])
                    (firstContent xml ''RequestId''))
         | None \<Rightarrow> exceptionTag deps response xml)
      else if name xml = ''Response'' then
        (case traverse (\<lambda>errNode. strings errNode [''Code'', ''Message''] [''Type''])
                (getList xml ''Errors'' ''Error'') of
           Inl e \<Rightarrow> Some e
         | Inr errors \<Rightarrow>
             (case errors of
                e0 # rest \<Rightarrow> Some (AwsServiceError response (JObj e0) (firstContent xml ''RequestID''))
              | [] \<Rightarrow> exceptionTag deps response xml))
      else if name xml = ''Error'' then
        Some (serviceErrorOr response
               (strings xml [''Code'', ''Message''] [''Token-0'', ''HostId''])
               (firstContent xml ''RequestId''))
      else exceptionTag deps response xml)"

definition throws :: "exn \<Rightarrow> log_entry list \<Rightarrow> bool \<Rightarrow> ErrorOutcome" where
  "throws e l b = \<lparr> completion = Inl e, logged = l, bodyUsed = b \<rparr>"

definition handleErrorResponse :: "Collaborators \<Rightarrow> Response \<Rightarrow> string \<Rightarrow> ErrorOutcome" where
  "handleErrorResponse deps response reqMethod =
     (if reqMethod = ''HEAD'' then
        throws (AwsServiceError response
                 (JObj [(''Code'', JStr (''Http'' @ show_nat (status response))),
                        (''Message'', JStr (''HTTP error status: '' @ statusText response))])
                 (map_option JStr (getRequestId deps (resp_headers response)))) [] False
      else
        let contentType = Headers_get (resp_headers response) ''content-type'' in
        if (case contentType of None \<Rightarrow> False | Some c \<Rightarrow> startsWith c ''text/xml'')
           \<or> (case contentType of None \<Rightarrow> False | Some c \<Rightarrow> startsWith c ''application/xml'')
           \<or> \<not> truthyOpt contentType
        then
          (case readXmlResult deps (resp_body response) of
             Inl e \<Rightarrow> throws e [] True
           | Inr xml \<Rightarrow>
               (case xmlError deps response xml of
                  Some e \<Rightarrow> throws e [] True
                | None \<Rightarrow>
                    throws (unrecognizable contentType) [[LStr ''Error DOM:'', LXml xml]] True))
        else if (case contentType of None \<Rightarrow> False | Some c \<Rightarrow> startsWith c ''application/json'')
        then
          (case JSON_parse deps (resp_body response) of
             Inl e \<Rightarrow> throws e [] True
           | Inr data \<Rightarrow>
               (case getProp data ''Error'' of
                  Inl e \<Rightarrow> throws e [] True
                | Inr err \<Rightarrow>
                    if truthyJ (optChain err ''Code'') then
                      throws (AwsServiceError response (the err) (propOf data ''RequestId'')) [] True
                    else
                      throws (unrecognizable contentType)
                        [[LStr ''Error from server:'', LResp response, LJson data]] True))
        else if (case contentType of None \<Rightarrow> False
                 | Some c \<Rightarrow> startsWith c ''application/x-amz-json-1.'')
        then
          (case JSON_parse deps (resp_body response) of
             Inl e \<Rightarrow> throws e [] True
           | Inr data \<Rightarrow>
               (case getProp data ''__type'' of
                  Inl e \<Rightarrow> throws e [] True
                | Inr ty \<Rightarrow>
                    if truthyJ ty \<and> truthyJ (propOf data ''message'') then
                      throws (AwsServiceError response
                               (JObj [(''Code'', the ty), (''Message'', the (propOf data ''message''))])
                               (map_option JStr (getRequestId deps (resp_headers response))))
                        [] True
                    else if truthyJ ty \<and> truthyJ (propOf data ''Message'') then
                      throws (AwsServiceError response
                               (JObj [(''Code'', the ty), (''Message'', the (propOf data ''Message''))])
                               (map_option JStr (getRequestId deps (resp_headers response))))
                        [] True
                    else
                      throws (unrecognizable contentType)
                        [[LStr ''Error from server:'', LResp response, LJson data]] True))
        else
          throws (unrecognizable contentType) [[LStr ''Error body:'', LStr (resp_body response)]] True)"

subsection \<open>The dispatch as the specification words it\<close>

text \<open>
  These definitions follow the specification, not the source; the theorems compare the
  classifier with them. The payload of an error response is chosen by the content type: an
  XML or unspecified content type is parsed as an XML document, \<open>application/json\<close> and
  \<open>application/x-amz-json-1.x\<close> are parsed as JSON, any other content type is raw text.
  A payload that does not parse is \<open>Unparsed\<close> with the parser's exception.
\<close>

datatype payload = XmlPayload XmlNode | JsonPayload json | AmzJsonPayload json
  | TextPayload string | Unparsed exn

definition spec_payload :: "Collaborators \<Rightarrow> Response \<Rightarrow> payload" where
  "spec_payload deps response =
     (case Headers_get (resp_headers response) ''content-type'' of
        None \<Rightarrow> (case readXmlResult deps (resp_body response) of
                    Inl e \<Rightarrow> Unparsed e | Inr x \<Rightarrow> XmlPayload x)
      | Some c \<Rightarrow>
          if c = [] \<or> startsWith c ''text/xml'' \<or> startsWith c ''application/xml'' then
            (case readXmlResult deps (resp_body response) of
               Inl e \<Rightarrow> Unparsed e | Inr x \<Rightarrow> XmlPayload x)
          else if startsWith c ''application/json'' then
            (case JSON_parse deps (resp_body response) of
               Inl e \<Rightarrow> Unparsed e | Inr d \<Rightarrow> JsonPayload d)
          else if startsWith c ''application/x-amz-json-1.'' then
            (case JSON_parse deps (resp_body response) of
               Inl e \<Rightarrow> Unparsed e | Inr d \<Rightarrow> AmzJsonPayload d)
          else TextPayload (resp_body response))"

text \<open>
  The recognized shapes: an \<open>ErrorResponse\<close> root with a nested \<open>Error\<close> element, a
  \<open>Response\<close> root with a non-empty \<open>Errors\<close> list of \<open>Error\<close> elements, an
  \<open>Error\<close> root, a root tag ending in \<open>Exception\<close>; a JSON value with an
  \<open>Error.Code\<close> field; an AWS-JSON value with \<open>__type\<close> and either \<open>message\<close> or
  \<open>Message\<close>.
\<close>

fun spec_recognizedShape :: "payload \<Rightarrow> bool" where
  "spec_recognizedShape (XmlPayload x) =
     ((name x = ''ErrorResponse'' \<and> first x ''Error'' \<noteq> None)
      \<or> (name x = ''Response'' \<and> getList x ''Errors'' ''Error'' \<noteq> [])
      \<or> name x = ''Error''
      \<or> endsWith (name x) ''Exception'')"
| "spec_recognizedShape (JsonPayload d) = truthyJ (optChain (propOf d ''Error'') ''Code'')"
| "spec_recognizedShape (AmzJsonPayload d) =
     (truthyJ (propOf d ''__type'')
      \<and> (truthyJ (propOf d ''message'') \<or> truthyJ (propOf d ''Message'')))"
| "spec_recognizedShape (TextPayload t) = False"
| "spec_recognizedShape (Unparsed e) = False"

text \<open>What the classifier logs before the generic failure, by payload.\<close>

fun spec_unrecognizedLog :: "Response \<Rightarrow> payload \<Rightarrow> log_entry list" where
  "spec_unrecognizedLog response (XmlPayload x) = [[LStr ''Error DOM:'', LXml x]]"
| "spec_unrecognizedLog response (JsonPayload d) =
     [[LStr ''Error from server:'', LResp response, LJson d]]"
| "spec_unrecognizedLog response (AmzJsonPayload d) =
     [[LStr ''Error from server:'', LResp response, LJson d]]"
| "spec_unrecognizedLog response (TextPayload t) = [[LStr ''Error body:'', LStr t]]"
| "spec_unrecognizedLog response (Unparsed e) = []"

section \<open>The protocol clients\<close>

text \<open>
  The signing fetcher talks to the credentials provider and to the network. Both are outside
  the program, so their state is an explicit world \<open>'w\<close> that every effectful call takes
  and returns. A call ends with its result (\<open>Inl\<close> the thrown exception), the lines it
  logged, and the world.
\<close>

type_synonym 'w SigningFetcher = "Request \<Rightarrow> FetchOpts \<Rightarrow> 'w \<Rightarrow> (exn + Response) \<times> 'w"

type_synonym 'w CallResult = "(exn + Response) \<times> log_entry list \<times> 'w"

text \<open>
  \<open>BaseServiceClient.performRequest\<close>, in four parts: the \<open>Request\<close> it builds, the
  options it passes to the fetcher, the branch on the response status, and the call that
  joins them.

  \<open>baseRequest\<close> is the part up to \<open>new Request('https://example.com/', {...})\<close>: the
  default method, the \<open>content-length\<close> header of a body, and the constructor of the
  platform, which throws a \<open>TypeError\<close> for a body with the method \<open>GET\<close> or
  \<open>HEAD\<close> and leaves the six method names as they are.
\<close>

definition baseRequest :: "ApiRequestConfig \<Rightarrow> Headers \<Rightarrow> bytes option \<Rightarrow> exn + Request" where
  "baseRequest config hdrs reqBody =
     (let method = (case cfg_method config of None \<Rightarrow> POST | Some m \<Rightarrow> m);
          hdrs1 = (case reqBody of
                     None \<Rightarrow> hdrs
                   | Some b \<Rightarrow> Headers_append hdrs ''content-length'' (show_nat (length b)))
      in if (method = GET \<or> method = HEAD) \<and> reqBody \<noteq> None
         then Inl (TypeError ''Request with GET/HEAD method cannot have body.'')
         else Inr \<lparr> req_method = methodName method, req_headers = hdrs1, req_body = reqBody \<rparr>)"

definition baseFetchOpts :: "ApiRequestConfig \<Rightarrow> FetchOpts" where
  "baseFetchOpts config =
     (let serviceUrl = (case requestUri config of None \<Rightarrow> ''/'' | Some u \<Rightarrow> u);
          queryPart = (case map_option URLSearchParams_toString (query config) of
                         None \<Rightarrow> []
                       | Some queryS \<Rightarrow>
                           if truthyStr queryS
                           then (if includesStr serviceUrl ''?'' then ''&'' else ''?'') @ queryS
                           else [])
      in \<lparr> urlPath = serviceUrl @ queryPart, hostPrefix = cfg_hostPrefix config,
           skipSigning = cfg_skipSigning config, region = cfg_region config \<rparr>)"

text \<open>
  The statements after \<open>await this.#signedFetcher(...)\<close>, as a function of what the
  fetcher answered: its exception propagates; a response is judged by its status.
\<close>

definition statusBranch ::
  "Collaborators \<Rightarrow> ApiRequestConfig \<Rightarrow> Request \<Rightarrow> exn + Response
     \<Rightarrow> (exn + Response) \<times> log_entry list" where
  "statusBranch deps config request answer =
     (case answer of
        Inl e \<Rightarrow> (Inl e, [])
      | Inr response \<Rightarrow>
          if int (status response) = (case responseCode config of None \<Rightarrow> 200 | Some c \<Rightarrow> c)
          then (Inr response, [])
          else if status response \<ge> 400 then
            (let h = handleErrorResponse deps response (req_method request) in
             case completion h of
               Inl e \<Rightarrow> (Inl e, logged h)
             | Inr u \<Rightarrow>
                 (Inl (JsError (''BUG: Unexpected HTTP response status ''
                                 @ show_nat (status response))), logged h))
          else if status response \<ge> 200 \<and> status response < 300 then
            (Inr response,
             [[LStr (''WARN: '' @ action config @ '' response was unexpected success ''
                      @ show_nat (status response))]])
          else
            (Inl (JsError (''BUG: Unexpected HTTP response status ''
                            @ show_nat (status response))), []))"

definition BaseServiceClient_performRequest ::
  "Collaborators \<Rightarrow> 'w SigningFetcher \<Rightarrow> ApiRequestConfig \<Rightarrow> Headers \<Rightarrow> bytes option \<Rightarrow> 'w
     \<Rightarrow> 'w CallResult" where
  "BaseServiceClient_performRequest deps signedFetcher config hdrs reqBody w =
     (case baseRequest config hdrs reqBody of
        Inl e \<Rightarrow> (Inl e, [], w)
      | Inr request \<Rightarrow>
          (case signedFetcher request (baseFetchOpts config) w of
             (answer, w1) \<Rightarrow>
               (case statusBranch deps config request answer of
                  (res, lines) \<Rightarrow> (res, lines, w1))))"

definition XmlServiceClient_performRequest ::
  "Collaborators \<Rightarrow> 'w SigningFetcher \<Rightarrow> ApiRequestConfig \<Rightarrow> 'w \<Rightarrow> 'w CallResult" where
  "XmlServiceClient_performRequest deps signedFetcher config w =
     (let hdrs = Headers_append (case cfg_headers config of None \<Rightarrow> [] | Some h \<Rightarrow> h)
                   ''accept'' ''text/xml''
      in case cfg_body config of
           Some (BodyBytes b) \<Rightarrow>
             BaseServiceClient_performRequest deps signedFetcher config hdrs (Some b) w
         | Some (BodyValue (JStr t)) \<Rightarrow>
             BaseServiceClient_performRequest deps signedFetcher config
               (Headers_append hdrs ''content-type'' ''text/xml'') (Some (TextEncoder_encode t)) w
         | other \<Rightarrow>
             if truthyBody other
             then (Inl (JsError ''TODO: non-string body to XmlServiceClient''), [], w)
             else BaseServiceClient_performRequest deps signedFetcher config hdrs None w)"

text \<open>
  \<open>JsonServiceClient.performRequest\<close>. A \<open>URLSearchParams\<close> object has no own
  enumerable property, so \<open>JSON.stringify\<close> renders it as the empty object.
\<close>

definition JsonServiceClient_performRequest ::
  "string \<Rightarrow> string \<Rightarrow> Collaborators \<Rightarrow> 'w SigningFetcher \<Rightarrow> ApiRequestConfig \<Rightarrow> 'w
     \<Rightarrow> 'w CallResult" where
  "JsonServiceClient_performRequest serviceTarget jsonVer deps signedFetcher config w =
     (let hdrs = Headers_append
                   (Headers_append (case cfg_headers config of None \<Rightarrow> [] | Some h \<Rightarrow> h)
                      ''x-amz-target'' (serviceTarget @ ''.'' @ action config))
                   ''accept'' (''application/x-amz-json-'' @ jsonVer);
          stringified = (\<lambda>j.
             BaseServiceClient_performRequest deps signedFetcher config
               (Headers_append hdrs ''content-type'' (''application/x-amz-json-'' @ jsonVer))
               (Some (TextEncoder_encode (JSON_stringify j))) w)
      in case cfg_body config of
           Some (BodyBytes b) \<Rightarrow>
             BaseServiceClient_performRequest deps signedFetcher config hdrs (Some b) w
         | Some (BodyParams ps) \<Rightarrow> stringified (JObj [])
         | Some (BodyValue j) \<Rightarrow>
             if truthy j then stringified j
             else BaseServiceClient_performRequest deps signedFetcher config hdrs None w
         | None \<Rightarrow> BaseServiceClient_performRequest deps signedFetcher config hdrs None w)"

text \<open>
  \<open>URLSearchParams.set\<close>: the first pair of that name takes the value and the later
  ones go; with no pair of that name the pair is appended.
\<close>

definition URLSearchParams_set :: "URLSearchParams \<Rightarrow> string \<Rightarrow> string \<Rightarrow> URLSearchParams" where
  "URLSearchParams_set ps k v =
     (if k \<in> fst ` set ps
      then takeWhile (\<lambda>kv. fst kv \<noteq> k) ps @ [(k, v)]
             @ filter (\<lambda>kv. fst kv \<noteq> k) (dropWhile (\<lambda>kv. fst kv \<noteq> k) ps)
      else ps @ [(k, v)])"

definition URLSearchParams_append :: "URLSearchParams \<Rightarrow> string \<times> string \<Rightarrow> URLSearchParams" where
  "URLSearchParams_append ps kv = ps @ [kv]"

definition QueryServiceClient_performRequest ::
  "string \<Rightarrow> Collaborators \<Rightarrow> 'w SigningFetcher \<Rightarrow> ApiRequestConfig \<Rightarrow> 'w \<Rightarrow> 'w CallResult" where
  "QueryServiceClient_performRequest serviceVersion deps signedFetcher config w =
     (let hdrs = Headers_append (case cfg_headers config of None \<Rightarrow> [] | Some h \<Rightarrow> h)
                   ''accept'' ''text/xml'';
          method = (case cfg_method config of None \<Rightarrow> POST | Some m \<Rightarrow> m)
      in case cfg_body config of
           Some (BodyParams ps) \<Rightarrow>
             if method \<noteq> POST
             then (Inl (JsError ''query is supposed to be POSTed''), [], w)
             else
               (let params0 = URLSearchParams_set
                                (URLSearchParams_set [] ''Action'' (action config))
                                ''Version'' serviceVersion;
                    params = foldl URLSearchParams_append params0 ps
                in BaseServiceClient_performRequest deps signedFetcher config
                     (Headers_append hdrs ''content-type''
                        ''application/x-www-form-urlencoded; charset=utf-8'')
                     (Some (TextEncoder_encode (URLSearchParams_toString params))) w)
         | other \<Rightarrow>
             if truthyBody other
             then (Inl (JsError ''BUG: non-query based request body passed to query client''), [], w)
             else BaseServiceClient_performRequest deps signedFetcher config hdrs None w)"

section \<open>The client factory\<close>

type_synonym 'w CredentialsProvider = "'w \<Rightarrow> (exn + Credentials) \<times> 'w"

record 'w FactoryOpts =
  credentialProvider :: "'w CredentialsProvider option"
  credentials :: "Credentials option"
  opt_region :: "string option"
  opt_fixedEndpoint :: "string option"
  opt_baseDomain :: "string option"

record 'w BaseApiFactory =
  fac_credentials :: "'w CredentialsProvider"
  fac_region :: "string option"
  fixedEndpoint :: "string option"
  baseDomain :: "string option"

text \<open>
  The constructor. Its first argument is the outcome of \<open>Deno.env.get("AWS_REGION")\<close>:
  the value of the variable (\<open>None\<close> when unset), or \<open>Inl (name, message)\<close> when the
  read throws. The environment is read only when no region option is given.
\<close>

definition BaseApiFactory_new ::
  "(string \<times> string) + string option \<Rightarrow> 'w FactoryOpts \<Rightarrow> exn + 'w BaseApiFactory" where
  "BaseApiFactory_new envRegion opts =
     (case (case credentials opts of
              Some c \<Rightarrow> Inr (\<lambda>w. (Inr c, w))
            | None \<Rightarrow>
                (case credentialProvider opts of
                   Some p \<Rightarrow> Inr p
                 | None \<Rightarrow> Inl (JsError
                     (''No credentials or credential source provided -- ''
                      @ ''you must provide one to use this class directly'')))) of
        Inl e \<Rightarrow> Inl e
      | Inr provider \<Rightarrow>
          (case (case opt_region opts of
                   Some r \<Rightarrow> Inr (Some r)
                 | None \<Rightarrow>
                     (case envRegion of
                        Inr v \<Rightarrow> Inr v
                      | Inl (n, m) \<Rightarrow>
                          if n \<noteq> ''PermissionDenied'' then Inl (Raised n m) else Inr None)) of
             Inl e \<Rightarrow> Inl e
           | Inr reg \<Rightarrow>
               (case opt_fixedEndpoint opts of
                  Some fe \<Rightarrow>
                    if \<not> includesStr fe ''://''
                    then Inl (JsError
                      ''If provided, fixedEndpoint must be a full URL including https:// or http://'')
                    else Inr \<lparr> fac_credentials = provider, fac_region = reg,
                               fixedEndpoint = Some fe, baseDomain = None \<rparr>
                | None \<Rightarrow>
                    Inr \<lparr> fac_credentials = provider, fac_region = reg,
                          fixedEndpoint = None, baseDomain = opt_baseDomain opts \<rparr>)))"

definition throwMissingRegion :: exn where
  "throwMissingRegion = JsError
     (''No region provided, try setting AWS_REGION or passing a region ''
      @ ''when constructing your client'')"

text \<open>
  What the fetcher hands to the signer and the transport: the endpoint and the path that
  \<open>new URL(opts.urlPath, endpoint)\<close> combines, the request, and for a signed request the
  region, credentials and signing name of \<open>new AWSSignerV4(region, credentials)\<close> and
  \<open>signer.sign(signingName, fullUrl, request)\<close>. The signer, the URL parser and \<open>fetch\<close>
  are outside the sources; together they are the parameter \<open>transport\<close>.
\<close>

record SigningContext =
  sign_region :: string
  sign_credentials :: Credentials
  sign_name :: string

record Outgoing =
  endpoint :: string
  out_urlPath :: string
  out_hostPrefix :: "string option"
  out_request :: Request
  signWith :: "SigningContext option"

type_synonym 'w Transport = "Outgoing \<Rightarrow> 'w \<Rightarrow> (exn + Response) \<times> 'w"

text \<open>\<open>apiMetadata.globalEndpoint?.replace(/\.amazonaws\.com$/, '')\<close>\<close>

definition globalEndpointPrefix :: "ApiMetadata \<Rightarrow> string option" where
  "globalEndpointPrefix apiMetadata =
     map_option (\<lambda>g. if endsWith g ''.amazonaws.com''
                       then take (length g - length ''.amazonaws.com'') g else g)
       (globalEndpoint apiMetadata)"

text \<open>The dual-stack choice: \<open>apiMetadata.serviceId === 'S3' ? 's3.dualstack' : ...\<close>\<close>

definition dualstackEndpointPrefix :: "ApiMetadata \<Rightarrow> string" where
  "dualstackEndpointPrefix apiMetadata =
     (if serviceId apiMetadata = ''S3'' then ''s3.dualstack'' else endpointPrefix apiMetadata)"

text \<open>
  The first statement of the fetcher, host routing for S3 buckets.
  \<open>opts.urlPath.slice(1).split(/[?/]/)\<close> starts with the units of the path after the first
  one, up to the first \<open>?\<close> or \<open>/\<close>.
\<close>

definition s3HostRouting :: "'w BaseApiFactory \<Rightarrow> ApiMetadata \<Rightarrow> FetchOpts \<Rightarrow> FetchOpts" where
  "s3HostRouting fac apiMetadata opts =
     (if serviceId apiMetadata = ''S3'' \<and> truthyStr (urlPath opts)
         \<and> \<not> truthyOpt (hostPrefix opts) \<and> \<not> truthyOpt (fixedEndpoint fac)
      then
        (let bucketName = takeWhile (\<lambda>c. c \<noteq> CHR ''?'' \<and> c \<noteq> CHR ''/'') (drop 1 (urlPath opts)) in
         if length bucketName > 0 \<and> \<not> includesStr bucketName ''.''
         then
           (let path = drop (length bucketName + 1) (urlPath opts) in
            opts \<lparr> hostPrefix := Some (bucketName @ ''.''),
                   urlPath := (if startsWith path ''/'' then path else ''/'' @ path) \<rparr>)
         else opts)
      else opts)"

text \<open>
  The endpoint template
  \<^verbatim>\<open>https://${opts.hostPrefix ?? ''}${baseDomain === 'aws' ? 'api.' : ''}${
    globalEndpointPrefix || `${endpointPrefix}.${region}`}.${baseDomain}\<close>.
  \<open>globalOr\<close> is the \<open>||\<close> of the template: the global prefix when it is a
  non-empty string, the regional name otherwise.
\<close>

definition globalOr :: "ApiMetadata \<Rightarrow> string \<Rightarrow> string" where
  "globalOr apiMetadata regional =
     (case globalEndpointPrefix apiMetadata of
        None \<Rightarrow> regional
      | Some g \<Rightarrow> if truthyStr g then g else regional)"

definition assembleEndpoint :: "FetchOpts \<Rightarrow> string \<Rightarrow> string \<Rightarrow> string" where
  "assembleEndpoint opts domain service =
     ''https://'' @ (case hostPrefix opts of None \<Rightarrow> [] | Some h \<Rightarrow> h)
       @ (if domain = ''aws'' then ''api.'' else [])
       @ service @ ''.'' @ domain"

definition regionalEndpoint :: "FetchOpts \<Rightarrow> ApiMetadata \<Rightarrow> string \<Rightarrow> string \<Rightarrow> string" where
  "regionalEndpoint opts apiMetadata domain reg =
     assembleEndpoint opts domain
       (globalOr apiMetadata (dualstackEndpointPrefix apiMetadata @ ''.'' @ reg))"

text \<open>
  The region of a signed request:
  \<^verbatim>\<open>opts.region ?? (apiMetadata.globalEndpoint ? 'us-east-1'
      : (this.#region ?? credentials.region ?? throwMissingRegion()))\<close>
\<close>

definition resolveSigningRegion ::
  "'w BaseApiFactory \<Rightarrow> ApiMetadata \<Rightarrow> FetchOpts \<Rightarrow> Credentials \<Rightarrow> exn + string" where
  "resolveSigningRegion fac apiMetadata opts creds =
     (case region opts of
        Some r \<Rightarrow> Inr r
      | None \<Rightarrow>
          if truthyOpt (globalEndpoint apiMetadata) then Inr ''us-east-1''
          else (case fac_region fac of
                  Some r \<Rightarrow> Inr r
                | None \<Rightarrow>
                    (case cred_region creds of
                       Some r \<Rightarrow> Inr r
                     | None \<Rightarrow> Inl throwMissingRegion)))"

text \<open>
  The region of an unsigned request:
  \<^verbatim>\<open>opts.region ?? this.#region
      ?? (await this.#credentials.getCredentials().then(x => x.region, () => undefined))\<close>.
  The credentials are asked only when neither the call nor the factory has a region, and a
  failing provider counts as no region.
\<close>

definition resolveUnsignedRegion ::
  "'w BaseApiFactory \<Rightarrow> FetchOpts \<Rightarrow> 'w \<Rightarrow> string option \<times> 'w" where
  "resolveUnsignedRegion fac opts w =
     (case region opts of
        Some r \<Rightarrow> (Some r, w)
      | None \<Rightarrow>
          (case fac_region fac of
             Some r \<Rightarrow> (Some r, w)
           | None \<Rightarrow>
               (case fac_credentials fac w of
                  (Inr c, w1) \<Rightarrow> (cred_region c, w1)
                | (Inl e, w1) \<Rightarrow> (None, w1))))"

text \<open>
  The body of the \<open>signingFetcher\<close> closure up to the call of the signer and of
  \<open>fetch\<close>. In the unsigned branch the missing region is thrown only where the template
  needs the region.
\<close>

definition signingFetcher_prepare ::
  "'w BaseApiFactory \<Rightarrow> ApiMetadata \<Rightarrow> Request \<Rightarrow> FetchOpts \<Rightarrow> 'w \<Rightarrow> (exn + Outgoing) \<times> 'w" where
  "signingFetcher_prepare fac apiMetadata request opts0 w =
     (let opts = s3HostRouting fac apiMetadata opts0 in
      if skipSigning opts then
        (case resolveUnsignedRegion fac opts w of
           (reg, w1) \<Rightarrow>
             (let domain = (case baseDomain fac of
                              Some d \<Rightarrow> d
                            | None \<Rightarrow> getRootDomain (serviceId apiMetadata) reg)
              in case (case fixedEndpoint fac of
                         Some fe \<Rightarrow> Inr fe
                       | None \<Rightarrow>
                           (case reg of
                              Some r \<Rightarrow> Inr (regionalEndpoint opts apiMetadata domain r)
                            | None \<Rightarrow>
                                if truthyOpt (globalEndpointPrefix apiMetadata)
                                then Inr (assembleEndpoint opts domain (globalOr apiMetadata []))
                                else Inl throwMissingRegion)) of
                   Inl e \<Rightarrow> (Inl e, w1)
                 | Inr ep \<Rightarrow>
                     (Inr \<lparr> endpoint = ep, out_urlPath = urlPath opts,
                            out_hostPrefix = hostPrefix opts, out_request = request,
                            signWith = None \<rparr>, w1)))
      else
        (case fac_credentials fac w of
           (Inl e, w1) \<Rightarrow> (Inl e, w1)
         | (Inr creds, w1) \<Rightarrow>
             (case resolveSigningRegion fac apiMetadata opts creds of
                Inl e \<Rightarrow> (Inl e, w1)
              | Inr reg \<Rightarrow>
                  (let domain = (case baseDomain fac of
                                   Some d \<Rightarrow> d
                                 | None \<Rightarrow> getRootDomain (serviceId apiMetadata) (Some reg));
                       signingName1 = (case signingName apiMetadata of
                                         Some n \<Rightarrow> n
                                       | None \<Rightarrow> endpointPrefix apiMetadata);
                       ep = (case fixedEndpoint fac of
                               Some fe \<Rightarrow>
                                 if truthyStr fe then fe
                                 else regionalEndpoint opts apiMetadata domain reg
                             | None \<Rightarrow> regionalEndpoint opts apiMetadata domain reg)
                   in (Inr \<lparr> endpoint = ep, out_urlPath = urlPath opts,
                              out_hostPrefix = hostPrefix opts, out_request = request,
                              signWith = Some \<lparr> sign_region = reg, sign_credentials = creds,
                                                sign_name = signingName1 \<rparr> \<rparr>, w1)))))"

text \<open>The region a prepared request is signed for, when the preparation succeeds.\<close>

definition signingRegionOf :: "(exn + Outgoing) \<times> 'w \<Rightarrow> exn + string option" where
  "signingRegionOf res =
     (case fst res of
        Inl e \<Rightarrow> Inl e
      | Inr out \<Rightarrow> Inr (map_option sign_region (signWith out)))"

definition signingFetcher ::
  "'w Transport \<Rightarrow> 'w BaseApiFactory \<Rightarrow> ApiMetadata \<Rightarrow> 'w SigningFetcher" where
  "signingFetcher transport fac apiMetadata request opts w =
     (case signingFetcher_prepare fac apiMetadata request opts w of
        (Inl e, w1) \<Rightarrow> (Inl e, w1)
      | (Inr out, w1) \<Rightarrow> transport out w1)"

text \<open>The three client classes, each holding its constructor arguments.\<close>

datatype 'w ServiceClient =
    QueryServiceClient string "'w SigningFetcher"
  | JsonServiceClient string string "'w SigningFetcher"
  | XmlServiceClient "'w SigningFetcher"

definition wrapServiceClient ::
  "ApiMetadata \<Rightarrow> 'w SigningFetcher \<Rightarrow> exn + 'w ServiceClient" where
  "wrapServiceClient apiMetadata fetcher =
     (if protocol apiMetadata = ''query'' \<or> protocol apiMetadata = ''ec2'' then
        Inr (QueryServiceClient (apiVersion apiMetadata) fetcher)
      else if protocol apiMetadata = ''json'' \<or> protocol apiMetadata = ''rest-json'' then
        Inr (JsonServiceClient
               (case targetPrefix apiMetadata of None \<Rightarrow> ''TODO'' | Some t \<Rightarrow> t)
               (case jsonVersion apiMetadata of None \<Rightarrow> ''1.0'' | Some v \<Rightarrow> v) fetcher)
      else if protocol apiMetadata = ''rest-xml'' then Inr (XmlServiceClient fetcher)
      else Inl (JsError (''TODO: protocol '' @ protocol apiMetadata)))"

definition buildServiceClient ::
  "'w Transport \<Rightarrow> 'w BaseApiFactory \<Rightarrow> ApiMetadata \<Rightarrow> exn + 'w ServiceClient" where
  "buildServiceClient transport fac apiMetadata =
     (if signatureVersion apiMetadata = ''v2''
      then Inl (JsError (''TODO: signature version '' @ signatureVersion apiMetadata))
      else wrapServiceClient apiMetadata (signingFetcher transport fac apiMetadata))"

fun performRequest ::
  "Collaborators \<Rightarrow> 'w ServiceClient \<Rightarrow> ApiRequestConfig \<Rightarrow> 'w \<Rightarrow> 'w CallResult" where
  "performRequest deps (QueryServiceClient v f) config w =
     QueryServiceClient_performRequest v deps f config w"
| "performRequest deps (JsonServiceClient t v f) config w =
     JsonServiceClient_performRequest t v deps f config w"
| "performRequest deps (XmlServiceClient f) config w =
     XmlServiceClient_performRequest deps f config w"

section \<open>Auxiliary definitions for the proofs\<close>

text \<open>
  \<open>okThrown\<close>: an exception a recognized shape may end in, either the service error
  with a \<open>Code\<close> property or the failure of a required-field extraction.
  \<open>afterParse\<close>: the classifier for a method other than \<open>HEAD\<close>, as a function of the
  parsed payload.
\<close>

definition okThrown :: "Response \<Rightarrow> exn \<Rightarrow> bool" where
  "okThrown r e \<longleftrightarrow>
     (\<exists>err rid. e = AwsServiceError r err rid \<and> propOf err ''Code'' \<noteq> None)
     \<or> (\<exists>n ks. e = MissingRequiredKeys n ks)"

definition afterParse :: "Collaborators \<Rightarrow> Response \<Rightarrow> payload \<Rightarrow> ErrorOutcome" where
  "afterParse deps response p =
     (let ct = Headers_get (resp_headers response) ''content-type'' in
      case p of
        Unparsed e \<Rightarrow> throws e [] True
      | XmlPayload x \<Rightarrow>
          (case xmlError deps response x of
             Some e \<Rightarrow> throws e [] True
           | None \<Rightarrow> throws (unrecognizable ct) [[LStr ''Error DOM:'', LXml x]] True)
      | JsonPayload d \<Rightarrow>
          (case getProp d ''Error'' of
             Inl e \<Rightarrow> throws e [] True
           | Inr err \<Rightarrow>
               if truthyJ (optChain err ''Code'') then
                 throws (AwsServiceError response (the err) (propOf d ''RequestId'')) [] True
               else throws (unrecognizable ct)
                      [[LStr ''Error from server:'', LResp response, LJson d]] True)
      | AmzJsonPayload d \<Rightarrow>
          (case getProp d ''__type'' of
             Inl e \<Rightarrow> throws e [] True
           | Inr ty \<Rightarrow>
               if truthyJ ty \<and> truthyJ (propOf d ''message'') then
                 throws (AwsServiceError response
                          (JObj [(''Code'', the ty), (''Message'', the (propOf d ''message''))])
                          (map_option JStr (getRequestId deps (resp_headers response)))) [] True
               else if truthyJ ty \<and> truthyJ (propOf d ''Message'') then
                 throws (AwsServiceError response
                          (JObj [(''Code'', the ty), (''Message'', the (propOf d ''Message''))])
                          (map_option JStr (getRequestId deps (resp_headers response)))) [] True
               else throws (unrecognizable ct)
                      [[LStr ''Error from server:'', LResp response, LJson d]] True)
      | TextPayload t \<Rightarrow> throws (unrecognizable ct) [[LStr ''Error body:'', LStr t]] True)"

section \<open>Concrete inputs\<close>

text \<open>
  Inputs the closed theorems below evaluate. The stub collaborators parse the few bodies the
  inputs use and reject every other text.
\<close>

definition stubCollaborators :: Collaborators where
  "stubCollaborators =
     \<lparr> readXmlResult = (\<lambda>t.
         if t = ''<Foo/>'' then Inr (XmlNode ''Foo'' None [])
         else if t = ''<Error><Code>NoSuchKey</Code><Message>gone</Message></Error>''
         then Inr (XmlNode ''Error'' None
                [XmlNode ''Code'' (Some ''NoSuchKey'') [], XmlNode ''Message'' (Some ''gone'') []])
         else Inl (Raised ''Error'' ''malformed XML'')),
       JSON_parse = (\<lambda>t.
         if t = ''null'' then Inr JNull
         else if t = ''{}'' then Inr (JObj [])
         else Inl (Raised ''SyntaxError'' ''Unexpected token'')),
       getRequestId = (\<lambda>h. Headers_get h ''x-amzn-requestid'') \<rparr>"

definition responseNotFound :: Response where
  "responseNotFound = \<lparr> status = 404, statusText = ''Not Found'',
      resp_headers = [(''x-amzn-requestid'', ''REQ1'')], resp_body = [] \<rparr>"

definition responseHtml :: Response where
  "responseHtml = \<lparr> status = 502, statusText = ''Bad Gateway'',
      resp_headers = [(''content-type'', ''text/html'')], resp_body = ''<html/>'' \<rparr>"

definition responseJsonEmpty :: Response where
  "responseJsonEmpty = \<lparr> status = 500, statusText = ''Internal Server Error'',
      resp_headers = [(''content-type'', ''application/json'')], resp_body = [] \<rparr>"

definition responseJsonNull :: Response where
  "responseJsonNull = \<lparr> status = 400, statusText = ''Bad Request'',
      resp_headers = [(''content-type'', ''application/json'')], resp_body = ''null'' \<rparr>"

definition answering :: "Response \<Rightarrow> unit SigningFetcher" where
  "answering r request opts w = (Inr r, w)"

definition configDefault :: ApiRequestConfig where
  "configDefault = \<lparr> action = ''GetThing'', cfg_method = None, requestUri = None,
     query = None, cfg_headers = None, cfg_body = None, cfg_region = None,
     cfg_skipSigning = False, cfg_hostPrefix = None, responseCode = None \<rparr>"

definition responseNoContent :: Response where
  "responseNoContent = \<lparr> status = 204, statusText = ''No Content'',
      resp_headers = [], resp_body = [] \<rparr>"

definition staticCredentials :: Credentials where
  "staticCredentials = \<lparr> awsAccessKeyId = ''AKIDEXAMPLE'', awsSecretKey = ''secret'',
     sessionToken = None, cred_region = Some ''ap-south-1'', expiresAt = None \<rparr>"

definition euFactory :: "unit BaseApiFactory" where
  "euFactory = \<lparr> fac_credentials = (\<lambda>w. (Inr staticCredentials, w)),
     fac_region = Some ''eu-west-1'', fixedEndpoint = None, baseDomain = None \<rparr>"

definition iamMetadata :: ApiMetadata where
  "iamMetadata = \<lparr> apiVersion = ''2010-05-08'', endpointPrefix = ''iam'', jsonVersion = None,
     globalEndpoint = Some ''iam.amazonaws.com'', protocol = ''query'', serviceId = ''IAM'',
     signatureVersion = ''v4'', signingName = None, targetPrefix = None \<rparr>"

definition sqsMetadata :: ApiMetadata where
  "sqsMetadata = \<lparr> apiVersion = ''2012-11-05'', endpointPrefix = ''sqs'', jsonVersion = None,
     globalEndpoint = None, protocol = ''query'', serviceId = ''SQS'',
     signatureVersion = ''v4'', signingName = None, targetPrefix = None \<rparr>"

definition postRequest :: Request where
  "postRequest = \<lparr> req_method = ''POST'', req_headers = [], req_body = None \<rparr>"

definition rootOpts :: FetchOpts where
  "rootOpts = \<lparr> urlPath = ''/'', hostPrefix = None, skipSigning = False, region = None \<rparr>"

definition s3Metadata :: ApiMetadata where
  "s3Metadata = \<lparr> apiVersion = ''2006-03-01'', endpointPrefix = ''s3'', jsonVersion = None,
     globalEndpoint = None, protocol = ''rest-xml'', serviceId = ''S3'',
     signatureVersion = ''s3'', signingName = None, targetPrefix = None \<rparr>"

definition bucketOpts :: FetchOpts where
  "bucketOpts = \<lparr> urlPath = ''/my-bucket/key'', hostPrefix = None, skipSigning = False,
     region = Some ''us-east-1'' \<rparr>"

text \<open>
  The endpoint of a prepared request, and the host prefix of the options as the endpoint
  template prints it.
\<close>

definition endpointOf :: "(exn + Outgoing) \<times> 'w \<Rightarrow> exn + string" where
  "endpointOf res = (case fst res of Inl e \<Rightarrow> Inl e | Inr out \<Rightarrow> Inr (endpoint out))"

definition hostPrefixStr :: "FetchOpts \<Rightarrow> string" where
  "hostPrefixStr opts = (case hostPrefix opts of None \<Rightarrow> [] | Some h \<Rightarrow> h)"

definition ec2Metadata :: ApiMetadata where
  "ec2Metadata = \<lparr> apiVersion = ''2016-11-15'', endpointPrefix = ''ec2'', jsonVersion = None,
     globalEndpoint = None, protocol = ''ec2'', serviceId = ''EC2'',
     signatureVersion = ''v4'', signingName = None, targetPrefix = None \<rparr>"

definition noCredentialOpts :: "unit FactoryOpts" where
  "noCredentialOpts = \<lparr> credentialProvider = None, credentials = None, opt_region = None,
     opt_fixedEndpoint = None, opt_baseDomain = None \<rparr>"

definition minioOpts :: "unit FactoryOpts" where
  "minioOpts = \<lparr> credentialProvider = None, credentials = Some staticCredentials,
     opt_region = Some ''us-east-1'', opt_fixedEndpoint = Some ''http://localhost:9000'',
     opt_baseDomain = Some ''example.test'' \<rparr>"

text \<open>The headers the caller supplies with a call, and a Query call.\<close>

definition callerHeaders :: "ApiRequestConfig \<Rightarrow> Headers" where
  "callerHeaders config = (case cfg_headers config of None \<Rightarrow> [] | Some h \<Rightarrow> h)"

definition sendMessageConfig :: ApiRequestConfig where
  "sendMessageConfig = configDefault \<lparr> action := ''SendMessage'',
     cfg_body := Some (BodyParams [(''QueueUrl'', ''https://q/1''), (''MessageBody'', ''hi there'')]) \<rparr>"



definition responseOk :: Response where
  "responseOk = \<lparr> status = 200, statusText = ''OK'', resp_headers = [], resp_body = [] \<rparr>"

text \<open>
  A fetcher that keeps, next to the world, the list of the calls it received; with it a
  theorem can say which request a client hands to its fetcher. \<open>sentRequests\<close> reads the
  requests from the result of a call. \<open>sendMessageBytes\<close> is the wire body of the Query
  call below.
\<close>

definition recording :: "'w SigningFetcher \<Rightarrow> ('w \<times> (Request \<times> FetchOpts) list) SigningFetcher" where
  "recording f request opts wc =
     (case f request opts (fst wc) of
        (answer, w1) \<Rightarrow> (answer, (w1, snd wc @ [(request, opts)])))"

definition sentRequests :: "('w \<times> (Request \<times> FetchOpts) list) CallResult \<Rightarrow> Request list" where
  "sentRequests res = map fst (snd (snd (snd res)))"

definition sendMessageBytes :: bytes where
  "sendMessageBytes =
     [65, 99, 116, 105, 111, 110, 61, 83, 101, 110, 100, 77, 101, 115, 115, 97,
      103, 101, 38, 86, 101, 114, 115, 105, 111, 110, 61, 50, 48, 49, 50, 45,
      49, 49, 45, 48, 53, 38, 81, 117, 101, 117, 101, 85, 114, 108, 61, 104,
      116, 116, 112, 115, 37, 51, 65, 37, 50, 70, 37, 50, 70, 113, 37, 50, 70,
      49, 38, 77, 101, 115, 115, 97, 103, 101, 66, 111, 100, 121, 61, 104, 105,
      43, 116, 104, 101, 114, 101]"


section \<open>Properties\<close>

subsection \<open>Auxiliary facts about region prefixes\<close>

lemma cn_not_iso: "startsWith r ''cn-'' \<Longrightarrow> \<not> startsWith r ''us-iso-'' \<and> \<not> startsWith r ''us-isob-''"
  by (auto simp: startsWith_def prefix_def)

lemma iso_not_isob: "startsWith r ''us-iso-'' \<Longrightarrow> \<not> startsWith r ''us-isob-''"
  by (auto simp: startsWith_def prefix_def)

lemma dualstack_region_commercial:
  "r \<in> dualStackEc2Regions \<Longrightarrow>
     \<not> startsWith r ''cn-'' \<and> \<not> startsWith r ''us-iso-'' \<and> \<not> startsWith r ''us-isob-''"
  by (auto simp: startsWith_def dualStackEc2Regions_def)

subsection \<open>Partition base domain\<close>

text \<open>
  Claim C6. For every service identifier and every region string, \<open>getRootDomain\<close>
  first checks the compute-service dualstack allow-list (service \<open>EC2\<close> and an
  allow-listed region give the domain \<open>aws\<close>); when that check does not apply, a
  region beginning \<open>cn-\<close> gives \<open>amazonaws.com.cn\<close>, a region beginning
  \<open>us-iso-\<close> gives \<open>c2s.ic.gov\<close>, a region beginning \<open>us-isob-\<close> gives
  \<open>sc2s.sgov.gov\<close>, and every other region gives \<open>amazonaws.com\<close>. The three
  prefixes exclude each other, so each prefix alone decides its case.
\<close>

theorem getRootDomain_partition:
  "(sid = ''EC2'' \<and> r \<in> dualStackEc2Regions
      \<longrightarrow> getRootDomain sid (Some r) = ''aws'')
   \<and> (\<not> (sid = ''EC2'' \<and> r \<in> dualStackEc2Regions) \<longrightarrow>
        (startsWith r ''cn-''
           \<longrightarrow> getRootDomain sid (Some r) = ''amazonaws.com.cn'')
      \<and> (startsWith r ''us-iso-''
           \<longrightarrow> getRootDomain sid (Some r) = ''c2s.ic.gov'')
      \<and> (startsWith r ''us-isob-''
           \<longrightarrow> getRootDomain sid (Some r) = ''sc2s.sgov.gov'')
      \<and> (\<not> startsWith r ''cn-'' \<and> \<not> startsWith r ''us-iso-''
            \<and> \<not> startsWith r ''us-isob-''
           \<longrightarrow> getRootDomain sid (Some r) = ''amazonaws.com''))"
  using cn_not_iso[of r] iso_not_isob[of r]
  by (auto simp: getRootDomain_def)

theorem getRootDomain_partition_witness:
  "getRootDomain ''EC2'' (Some ''us-west-2'') = ''aws''
   \<and> getRootDomain ''EC2'' (Some ''ap-northeast-1'') = ''amazonaws.com''
   \<and> getRootDomain ''S3'' (Some ''us-west-2'') = ''amazonaws.com''
   \<and> getRootDomain ''S3'' (Some ''cn-north-1'') = ''amazonaws.com.cn''
   \<and> getRootDomain ''S3'' (Some ''us-iso-east-1'') = ''c2s.ic.gov''
   \<and> getRootDomain ''S3'' (Some ''us-isob-east-1'') = ''sc2s.sgov.gov''"
  using getRootDomain_partition [of "''EC2''" "''us-west-2''"]
    getRootDomain_partition [of "''EC2''" "''ap-northeast-1''"]
    getRootDomain_partition [of "''S3''" "''us-west-2''"]
    getRootDomain_partition [of "''S3''" "''cn-north-1''"]
    getRootDomain_partition [of "''S3''" "''us-iso-east-1''"]
    getRootDomain_partition [of "''S3''" "''us-isob-east-1''"]
  by (simp add: startsWith_def dualStackEc2Regions_def)

subsection \<open>The error classifier\<close>

lemma handleErrorResponse_throws:
  "\<exists>e. completion (handleErrorResponse deps response m) = Inl e"
  by (simp add: handleErrorResponse_def throws_def Let_def split: sum.splits option.splits)

lemma exceptionTag_None: "\<not> endsWith (name x) ''Exception'' \<Longrightarrow> exceptionTag deps r x = None"
  by (simp add: exceptionTag_def)

lemma traverse_Nil_iff: "traverse f xs = Inr [] \<longleftrightarrow> xs = []"
  by (cases xs) (simp_all split: sum.splits)

lemma xmlError_unrecognized:
  "\<not> spec_recognizedShape (XmlPayload x) \<Longrightarrow> xmlError deps r x = None"
  by (auto simp: xmlError_def exceptionTag_None traverse_Nil_iff split: option.splits sum.splits list.splits)

lemma ct_json_not_xml:
  "startsWith c ''application/json'' \<Longrightarrow>
     c \<noteq> [] \<and> \<not> startsWith c ''text/xml'' \<and> \<not> startsWith c ''application/xml''"
  by (auto simp: startsWith_def prefix_def)

lemma ct_amz_not_xml:
  "startsWith c ''application/x-amz-json-1.'' \<Longrightarrow>
     c \<noteq> [] \<and> \<not> startsWith c ''text/xml'' \<and> \<not> startsWith c ''application/xml''
     \<and> \<not> startsWith c ''application/json''"
  by (auto simp: startsWith_def prefix_def)

lemma handle_xml:
  assumes "m \<noteq> ''HEAD''"
    and "Headers_get (resp_headers response) ''content-type'' = ct"
    and "ct = None \<or> (\<exists>c. ct = Some c \<and> (c = [] \<or> startsWith c ''text/xml'' \<or> startsWith c ''application/xml''))"
  shows "handleErrorResponse deps response m =
           (case readXmlResult deps (resp_body response) of
             Inl e \<Rightarrow> throws e [] True
           | Inr xml \<Rightarrow>
               (case xmlError deps response xml of
                  Some e \<Rightarrow> throws e [] True
                | None \<Rightarrow>
                    throws (unrecognizable ct) [[LStr ''Error DOM:'', LXml xml]] True))"
proof -
  have cond: "(case ct of None \<Rightarrow> False | Some c \<Rightarrow> startsWith c ''text/xml'')
           \<or> (case ct of None \<Rightarrow> False | Some c \<Rightarrow> startsWith c ''application/xml'')
           \<or> \<not> truthyOpt ct"
    using assms(3) by (auto simp: truthyOpt_def truthyStr_def)
  show ?thesis
    using assms(1) cond unfolding handleErrorResponse_def assms(2) Let_def
    by simp
qed

lemma handle_json:
  assumes "m \<noteq> ''HEAD''"
    and "Headers_get (resp_headers response) ''content-type'' = Some c"
    and "startsWith c ''application/json''"
  shows "handleErrorResponse deps response m =
          (case JSON_parse deps (resp_body response) of
             Inl e \<Rightarrow> throws e [] True
           | Inr data \<Rightarrow>
               (case getProp data ''Error'' of
                  Inl e \<Rightarrow> throws e [] True
                | Inr err \<Rightarrow>
                    if truthyJ (optChain err ''Code'') then
                      throws (AwsServiceError response (the err) (propOf data ''RequestId'')) [] True
                    else
                      throws (unrecognizable (Some c))
                        [[LStr ''Error from server:'', LResp response, LJson data]] True))"
  using assms(1,3) ct_json_not_xml[OF assms(3)]
  unfolding handleErrorResponse_def assms(2) Let_def
  by (simp add: truthyOpt_def truthyStr_def)

lemma handle_amz:
  assumes "m \<noteq> ''HEAD''"
    and "Headers_get (resp_headers response) ''content-type'' = Some c"
    and "startsWith c ''application/x-amz-json-1.''"
  shows "handleErrorResponse deps response m =
          (case JSON_parse deps (resp_body response) of
             Inl e \<Rightarrow> throws e [] True
           | Inr data \<Rightarrow>
               (case getProp data ''__type'' of
                  Inl e \<Rightarrow> throws e [] True
                | Inr ty \<Rightarrow>
                    if truthyJ ty \<and> truthyJ (propOf data ''message'') then
                      throws (AwsServiceError response
                               (JObj [(''Code'', the ty), (''Message'', the (propOf data ''message''))])
                               (map_option JStr (getRequestId deps (resp_headers response))))
                        [] True
                    else if truthyJ ty \<and> truthyJ (propOf data ''Message'') then
                      throws (AwsServiceError response
                               (JObj [(''Code'', the ty), (''Message'', the (propOf data ''Message''))])
                               (map_option JStr (getRequestId deps (resp_headers response))))
                        [] True
                    else
                      throws (unrecognizable (Some c))
                        [[LStr ''Error from server:'', LResp response, LJson data]] True))"
  using assms(1,3) ct_amz_not_xml[OF assms(3)]
  unfolding handleErrorResponse_def assms(2) Let_def
  by (simp add: truthyOpt_def truthyStr_def)

lemma handle_other:
  assumes "m \<noteq> ''HEAD''"
    and "Headers_get (resp_headers response) ''content-type'' = Some c"
    and "c \<noteq> []" "\<not> startsWith c ''text/xml''" "\<not> startsWith c ''application/xml''"
      "\<not> startsWith c ''application/json''" "\<not> startsWith c ''application/x-amz-json-1.''"
  shows "handleErrorResponse deps response m =
          throws (unrecognizable (Some c)) [[LStr ''Error body:'', LStr (resp_body response)]] True"
  using assms(1,3-)
  unfolding handleErrorResponse_def assms(2) Let_def
  by (simp add: truthyOpt_def truthyStr_def)



lemma strings_Inl: "strings x req opt = Inl e \<Longrightarrow> \<exists>ks. e = MissingRequiredKeys (name x) ks"
  by (auto simp: strings_def Let_def split: if_splits)

lemma strings_required:
  assumes "strings x req opt = Inr fs" and "k \<in> set req"
  shows "map_of fs k \<noteq> None"
proof -
  have nomiss: "filter (\<lambda>k. first x k = None) req = []"
    using assms(1) by (auto simp: strings_def Let_def split: if_splits)
  then have "first x k \<noteq> None"
    using assms(2) by (auto simp: filter_empty_conv)
  then obtain c where c: "first x k = Some c" by auto
  have fs: "fs = concat (map (\<lambda>k.
             case first x k of
               None \<Rightarrow> []
             | Some c \<Rightarrow> [(k, JStr (case content c of None \<Rightarrow> [] | Some t \<Rightarrow> t))])
           (req @ opt))"
    using assms(1) nomiss by (simp add: strings_def Let_def)
  have "k \<in> fst ` set fs"
    unfolding fs using assms(2) c by (force simp: image_iff)
  then show ?thesis
    by (simp add: map_of_eq_None_iff)
qed

lemma serviceErrorOr_ok:
  assumes "\<And>e. ex = Inl e \<Longrightarrow> \<exists>n ks. e = MissingRequiredKeys n ks"
    and "\<And>fs. ex = Inr fs \<Longrightarrow> map_of fs ''Code'' \<noteq> None"
  shows "okThrown r (serviceErrorOr r ex rid)"
  using assms by (cases ex) (auto simp: okThrown_def serviceErrorOr_def)

lemma exceptionTag_ok: "exceptionTag deps r x = Some e \<Longrightarrow> okThrown r e"
  unfolding exceptionTag_def
  by (auto split: if_splits sum.splits intro!: serviceErrorOr_ok dest: strings_Inl)

lemma traverse_Inl:
  "traverse f xs = Inl e \<Longrightarrow> \<exists>x \<in> set xs. f x = Inl e"
  by (induction xs) (auto split: sum.splits)

lemma traverse_Cons:
  "traverse f xs = Inr (y # ys) \<Longrightarrow> \<exists>x \<in> set xs. f x = Inr y"
  by (cases xs) (auto split: sum.splits)




lemma strings_throw_ok:
  assumes "''Code'' \<in> set req"
  shows "okThrown r (serviceErrorOr r (strings x req opt) rid)"
proof (rule serviceErrorOr_ok)
  fix e assume "strings x req opt = Inl e"
  then show "\<exists>n ks. e = MissingRequiredKeys n ks" using strings_Inl by blast
next
  fix fs assume "strings x req opt = Inr fs"
  then show "map_of fs ''Code'' \<noteq> None" using assms by (rule strings_required)
qed

lemma errors_list_ok:
  assumes "traverse (\<lambda>n. strings n req opt) ns = res" and "''Code'' \<in> set req"
  shows "(case res of
            Inl e \<Rightarrow> okThrown r e
          | Inr errors \<Rightarrow> (case errors of
                             e0 # rest \<Rightarrow> okThrown r (AwsServiceError r (JObj e0) rid)
                           | [] \<Rightarrow> True))"
proof (cases res)
  case (Inl e)
  then obtain n where "strings n req opt = Inl e"
    using assms(1) traverse_Inl by fastforce
  then obtain ks where "e = MissingRequiredKeys (name n) ks"
    using strings_Inl by blast
  then show ?thesis using Inl by (simp add: okThrown_def)
next
  case (Inr errors)
  show ?thesis
  proof (cases errors)
    case Nil
    then show ?thesis using Inr by simp
  next
    case (Cons e0 rest)
    then obtain n where "strings n req opt = Inr e0"
      using assms(1) Inr traverse_Cons by fastforce
    then have "map_of e0 ''Code'' \<noteq> None"
      using assms(2) by (rule strings_required)
    then show ?thesis using Inr Cons by (simp add: okThrown_def)
  qed
qed




lemma xmlError_ok:
  assumes "xmlError deps r x = Some e"
  shows "okThrown r e"
proof -
  consider (a) "name x = ''ErrorResponse''"
    | (b) "name x \<noteq> ''ErrorResponse''" "name x = ''Response''"
    | (c) "name x \<noteq> ''ErrorResponse''" "name x \<noteq> ''Response''" "name x = ''Error''"
    | (d) "name x \<noteq> ''ErrorResponse''" "name x \<noteq> ''Response''" "name x \<noteq> ''Error''"
    by blast
  then show ?thesis
  proof cases
    case a
    show ?thesis
    proof (cases "first x ''Error''")
      case None
      then show ?thesis using assms a exceptionTag_ok by (simp add: xmlError_def)
    next
      case (Some errNode)
      then have "e = serviceErrorOr r (strings errNode [''Code'', ''Message'', ''Type''] [])
                       (firstContent x ''RequestId'')"
        using assms a by (simp add: xmlError_def)
      then show ?thesis using strings_throw_ok by simp
    qed
  next
    case b
    let ?res = "traverse (\<lambda>n. strings n [''Code'', ''Message''] [''Type''])
                  (getList x ''Errors'' ''Error'')"
    have ok: "(case ?res of
            Inl e \<Rightarrow> okThrown r e
          | Inr errors \<Rightarrow> (case errors of
                             e0 # rest \<Rightarrow> okThrown r (AwsServiceError r (JObj e0)
                                                     (firstContent x ''RequestID''))
                           | [] \<Rightarrow> True))"
      using errors_list_ok [OF refl, where req = "[''Code'', ''Message'']" and r = r
          and opt = "[''Type'']" and ns = "getList x ''Errors'' ''Error''"
          and rid = "firstContent x ''RequestID''"]
      by simp
    show ?thesis
    proof (cases ?res)
      case (Inl e')
      then show ?thesis using assms b ok by (simp add: xmlError_def)
    next
      case (Inr errors)
      show ?thesis
      proof (cases errors)
        case Nil
        then show ?thesis using assms b Inr exceptionTag_ok by (simp add: xmlError_def)
      next
        case (Cons e0 rest)
        then show ?thesis using assms b Inr ok by (simp add: xmlError_def)
      qed
    qed
  next
    case c
    then have "e = serviceErrorOr r (strings x [''Code'', ''Message''] [''Token-0'', ''HostId''])
                       (firstContent x ''RequestId'')"
      using assms by (simp add: xmlError_def)
    then show ?thesis using strings_throw_ok by simp
  next
    case d
    then show ?thesis using assms exceptionTag_ok by (simp add: xmlError_def)
  qed
qed




lemma not_exception_tags:
  "\<not> endsWith ''ErrorResponse'' ''Exception''"
  "\<not> endsWith ''Response'' ''Exception''"
  "\<not> endsWith ''Error'' ''Exception''"
  by (simp_all add: endsWith_def suffix_to_prefix)

lemma xmlError_recognized:
  assumes "spec_recognizedShape (XmlPayload x)"
  shows "\<exists>e. xmlError deps r x = Some e"
proof -
  have tag: "endsWith (name x) ''Exception'' \<Longrightarrow> \<exists>e. exceptionTag deps r x = Some e"
    by (simp add: exceptionTag_def)
  consider (a) "name x = ''ErrorResponse''" "first x ''Error'' \<noteq> None"
    | (b) "name x = ''Response''" "getList x ''Errors'' ''Error'' \<noteq> []"
    | (c) "name x = ''Error''"
    | (d) "endsWith (name x) ''Exception''"
    using assms by auto
  then show ?thesis
  proof cases
    case a
    then show ?thesis by (auto simp: xmlError_def)
  next
    case b
    let ?res = "traverse (\<lambda>n. strings n [''Code'', ''Message''] [''Type''])
                  (getList x ''Errors'' ''Error'')"
    show ?thesis
    proof (cases ?res)
      case (Inl e)
      then show ?thesis using b by (simp add: xmlError_def)
    next
      case (Inr errors)
      then have "errors \<noteq> []" using b traverse_Nil_iff by metis
      then obtain e0 rest where "errors = e0 # rest" by (cases errors) auto
      then show ?thesis using b Inr by (simp add: xmlError_def)
    qed
  next
    case c
    then show ?thesis by (simp add: xmlError_def)
  next
    case d
    have nm: "name x \<noteq> ''ErrorResponse''" "name x \<noteq> ''Response''" "name x \<noteq> ''Error''"
      using d not_exception_tags by metis+
    show ?thesis using tag[OF d] nm by (simp add: xmlError_def)
  qed
qed





lemma handle_by_payload:
  assumes m: "m \<noteq> ''HEAD''"
  shows "handleErrorResponse deps response m = afterParse deps response (spec_payload deps response)"
proof (cases "Headers_get (resp_headers response) ''content-type''")
  case None
  show ?thesis
    unfolding handle_xml [OF m None, simplified]
    by (simp add: afterParse_def spec_payload_def None split: sum.splits)
next
  case (Some c)
  consider (xml) "c = [] \<or> startsWith c ''text/xml'' \<or> startsWith c ''application/xml''"
    | (json) "startsWith c ''application/json''"
    | (amz) "startsWith c ''application/x-amz-json-1.''"
    | (other) "c \<noteq> []" "\<not> startsWith c ''text/xml''" "\<not> startsWith c ''application/xml''"
      "\<not> startsWith c ''application/json''" "\<not> startsWith c ''application/x-amz-json-1.''"
    by blast
  then show ?thesis
  proof cases
    case xml
    have "handleErrorResponse deps response m =
           (case readXmlResult deps (resp_body response) of
             Inl e \<Rightarrow> throws e [] True
           | Inr xml \<Rightarrow>
               (case xmlError deps response xml of
                  Some e \<Rightarrow> throws e [] True
                | None \<Rightarrow>
                    throws (unrecognizable (Some c)) [[LStr ''Error DOM:'', LXml xml]] True))"
      using handle_xml [OF m Some] xml by simp
    then show ?thesis
      using xml by (simp add: afterParse_def spec_payload_def Some split: sum.splits)
  next
    case json
    show ?thesis
      unfolding handle_json [OF m Some json]
      using json ct_json_not_xml [OF json]
      by (simp add: afterParse_def spec_payload_def Some split: sum.splits)
  next
    case amz
    show ?thesis
      unfolding handle_amz [OF m Some amz]
      using amz ct_amz_not_xml [OF amz]
      by (simp add: afterParse_def spec_payload_def Some split: sum.splits)
  next
    case other
    show ?thesis
      unfolding handle_other [OF m Some other]
      using other
      by (simp add: afterParse_def spec_payload_def Some)
  qed
qed




lemma afterParse_unparsed: "afterParse deps r (Unparsed e) = throws e [] True"
  by (simp add: afterParse_def)

lemma afterParse_unrecognized:
  assumes "\<forall>e. p \<noteq> Unparsed e" "p \<noteq> JsonPayload JNull" "p \<noteq> AmzJsonPayload JNull"
    and "\<not> spec_recognizedShape p"
  shows "afterParse deps r p =
           throws (unrecognizable (Headers_get (resp_headers r) ''content-type''))
             (spec_unrecognizedLog r p) True"
proof (cases p)
  case (XmlPayload x)
  then show ?thesis
    using assms(4) xmlError_unrecognized [of x deps r] by (simp add: afterParse_def)
next
  case (JsonPayload d)
  then show ?thesis
    using assms(2,4) by (simp add: afterParse_def getProp_def)
next
  case (AmzJsonPayload d)
  then show ?thesis
    using assms(3,4) by (auto simp: afterParse_def getProp_def)
next
  case (TextPayload t)
  then show ?thesis by (simp add: afterParse_def)
next
  case (Unparsed e)
  then show ?thesis using assms(1) by simp
qed

lemma truthyJ_Some: "truthyJ v \<Longrightarrow> \<exists>j. v = Some j"
  by (cases v) (simp_all add: truthyJ_def)

lemma optChain_Some: "optChain v k = Some c \<Longrightarrow> \<exists>j. v = Some j \<and> propOf j k = Some c"
  by (cases v) (auto simp: optChain_def split: if_splits)

lemma afterParse_recognized:
  assumes "spec_recognizedShape p"
  shows "\<exists>e. completion (afterParse deps r p) = Inl e \<and> okThrown r e"
proof (cases p)
  case (XmlPayload x)
  then obtain e where "xmlError deps r x = Some e"
    using assms xmlError_recognized by blast
  then show ?thesis
    using XmlPayload xmlError_ok by (auto simp: afterParse_def throws_def)
next
  case (JsonPayload d)
  then have t: "truthyJ (optChain (propOf d ''Error'') ''Code'')" using assms by simp
  then obtain c where c: "optChain (propOf d ''Error'') ''Code'' = Some c"
    using truthyJ_Some by blast
  then obtain j where j: "propOf d ''Error'' = Some j" "propOf j ''Code'' = Some c"
    using optChain_Some by blast
  then have "d \<noteq> JNull" by auto
  then show ?thesis
    using JsonPayload t j by (simp add: afterParse_def getProp_def throws_def okThrown_def)
next
  case (AmzJsonPayload d)
  then have t: "truthyJ (propOf d ''__type'')" using assms by simp
  then have "d \<noteq> JNull" by (auto simp: truthyJ_def)
  then show ?thesis
    using AmzJsonPayload t assms
    by (auto simp: afterParse_def getProp_def throws_def okThrown_def)
next
  case (TextPayload t)
  then show ?thesis using assms by simp
next
  case (Unparsed e)
  then show ?thesis using assms by simp
qed

text \<open>
  Claim C2, as amended. The classifier never returns normally: for every response and
  request method it completes by throwing. When the request method is \<open>HEAD\<close> it throws the
  service error with code \<open>Http{status}\<close> and message \<open>HTTP error status: {statusText}\<close>
  without reading the body. Otherwise it reads the body and dispatches on the content type
  and the payload: an exception of the parser propagates; a payload that parses, is not the
  JSON value \<open>null\<close>, and has none of the recognized shapes ends in the generic
  \<open>Unrecognizable error response of type {content-type}\<close> failure, after one log line; a
  payload of a recognized shape ends in a service error that carries a \<open>Code\<close>, or in the
  failure of a required-field extraction.
\<close>

theorem handleErrorResponse_classifies:
  "(\<exists>e. completion (handleErrorResponse deps response m) = Inl e)
   \<and> (m = ''HEAD'' \<longrightarrow>
        handleErrorResponse deps response m =
          \<lparr> completion = Inl (AwsServiceError response
               (JObj [(''Code'', JStr (''Http'' @ show_nat (status response))),
                      (''Message'', JStr (''HTTP error status: '' @ statusText response))])
               (map_option JStr (getRequestId deps (resp_headers response)))),
            logged = [], bodyUsed = False \<rparr>)
   \<and> (m \<noteq> ''HEAD'' \<longrightarrow>
        (\<forall>e. spec_payload deps response = Unparsed e \<longrightarrow>
           handleErrorResponse deps response m
             = \<lparr> completion = Inl e, logged = [], bodyUsed = True \<rparr>)
      \<and> ((\<forall>e. spec_payload deps response \<noteq> Unparsed e)
           \<and> spec_payload deps response \<noteq> JsonPayload JNull
           \<and> spec_payload deps response \<noteq> AmzJsonPayload JNull
           \<and> \<not> spec_recognizedShape (spec_payload deps response) \<longrightarrow>
           handleErrorResponse deps response m =
             \<lparr> completion = Inl (JsError (''Unrecognizable error response of type ''
                  @ (case Headers_get (resp_headers response) ''content-type'' of
                       None \<Rightarrow> ''null'' | Some c \<Rightarrow> c))),
               logged = spec_unrecognizedLog response (spec_payload deps response),
               bodyUsed = True \<rparr>)
      \<and> (spec_recognizedShape (spec_payload deps response) \<longrightarrow>
           (\<exists>err rid. completion (handleErrorResponse deps response m)
                         = Inl (AwsServiceError response err rid)
                      \<and> propOf err ''Code'' \<noteq> None)
           \<or> (\<exists>n ks. completion (handleErrorResponse deps response m)
                        = Inl (MissingRequiredKeys n ks))))"
proof (intro conjI impI allI)
  show "\<exists>e. completion (handleErrorResponse deps response m) = Inl e"
    by (rule handleErrorResponse_throws)
next
  assume "m = ''HEAD''"
  then show "handleErrorResponse deps response m =
          \<lparr> completion = Inl (AwsServiceError response
               (JObj [(''Code'', JStr (''Http'' @ show_nat (status response))),
                      (''Message'', JStr (''HTTP error status: '' @ statusText response))])
               (map_option JStr (getRequestId deps (resp_headers response)))),
            logged = [], bodyUsed = False \<rparr>"
    by (simp add: handleErrorResponse_def throws_def)
next
  fix e assume "m \<noteq> ''HEAD''" and "spec_payload deps response = Unparsed e"
  then show "handleErrorResponse deps response m
             = \<lparr> completion = Inl e, logged = [], bodyUsed = True \<rparr>"
    by (simp add: handle_by_payload afterParse_unparsed throws_def)
next
  assume m: "m \<noteq> ''HEAD''"
    and p: "(\<forall>e. spec_payload deps response \<noteq> Unparsed e)
           \<and> spec_payload deps response \<noteq> JsonPayload JNull
           \<and> spec_payload deps response \<noteq> AmzJsonPayload JNull
           \<and> \<not> spec_recognizedShape (spec_payload deps response)"
  have "afterParse deps response (spec_payload deps response) =
           throws (unrecognizable (Headers_get (resp_headers response) ''content-type''))
             (spec_unrecognizedLog response (spec_payload deps response)) True"
    using p by (intro afterParse_unrecognized) simp_all
  then show "handleErrorResponse deps response m =
             \<lparr> completion = Inl (JsError (''Unrecognizable error response of type ''
                  @ (case Headers_get (resp_headers response) ''content-type'' of
                       None \<Rightarrow> ''null'' | Some c \<Rightarrow> c))),
               logged = spec_unrecognizedLog response (spec_payload deps response),
               bodyUsed = True \<rparr>"
    using m by (simp add: handle_by_payload throws_def unrecognizable_def)
next
  assume m: "m \<noteq> ''HEAD''"
    and rec: "spec_recognizedShape (spec_payload deps response)"
  obtain e where e: "completion (afterParse deps response (spec_payload deps response)) = Inl e"
      "okThrown response e"
    using afterParse_recognized [OF rec] by blast
  then show "(\<exists>err rid. completion (handleErrorResponse deps response m)
                         = Inl (AwsServiceError response err rid)
                      \<and> propOf err ''Code'' \<noteq> None)
           \<or> (\<exists>n ks. completion (handleErrorResponse deps response m)
                        = Inl (MissingRequiredKeys n ks))"
    using m by (simp add: handle_by_payload okThrown_def)
qed

lemma payload_html: "spec_payload stubCollaborators responseHtml = TextPayload ''<html/>''"
  by (simp add: spec_payload_def responseHtml_def Headers_get_def startsWith_def)

text \<open>
  The amended claim at a \<open>HEAD\<close> request answered 404 and at a \<open>GET\<close> request answered
  with an HTML page.
\<close>

theorem handleErrorResponse_classifies_witness:
  "handleErrorResponse stubCollaborators responseNotFound ''HEAD'' =
     \<lparr> completion = Inl (AwsServiceError responseNotFound
          (JObj [(''Code'', JStr ''Http404''), (''Message'', JStr ''HTTP error status: Not Found'')])
          (Some (JStr ''REQ1''))),
       logged = [], bodyUsed = False \<rparr>
   \<and> handleErrorResponse stubCollaborators responseHtml ''GET'' =
     \<lparr> completion = Inl (JsError ''Unrecognizable error response of type text/html''),
       logged = [[LStr ''Error body:'', LStr ''<html/>'']], bodyUsed = True \<rparr>"
proof -
  have n: "show_nat 404 = ''404''" by code_simp
  have a: "status responseNotFound = 404" "statusText responseNotFound = ''Not Found''"
    "getRequestId stubCollaborators (resp_headers responseNotFound) = Some ''REQ1''"
    by (simp_all add: responseNotFound_def stubCollaborators_def Headers_get_def)
  have b: "Headers_get (resp_headers responseHtml) ''content-type'' = Some ''text/html''"
    by (simp add: responseHtml_def Headers_get_def)
  show ?thesis
    using handleErrorResponse_classifies [of stubCollaborators responseNotFound "''HEAD''"]
      handleErrorResponse_classifies [of stubCollaborators responseHtml "''GET''"]
    by (simp add: payload_html n a b)
qed

text \<open>
  Claim C2 as stated fails: a payload that matches no recognized shape does not always end
  in the generic failure. An empty body served as \<open>application/json\<close> does not parse, and
  the classifier ends in the exception of the parser, which it does not catch; a JSON payload
  \<open>null\<close> parses, and the classifier ends in the \<open>TypeError\<close> of the property read
  \<open>data.Error\<close>.
\<close>

theorem handleErrorResponse_unrecognized_counterexample:
  "spec_payload stubCollaborators responseJsonEmpty
       = Unparsed (Raised ''SyntaxError'' ''Unexpected token'')
   \<and> completion (handleErrorResponse stubCollaborators responseJsonEmpty ''POST'')
       = Inl (Raised ''SyntaxError'' ''Unexpected token'')
   \<and> completion (handleErrorResponse stubCollaborators responseJsonEmpty ''POST'')
       \<noteq> Inl (JsError ''Unrecognizable error response of type application/json'')
   \<and> spec_payload stubCollaborators responseJsonNull = JsonPayload JNull
   \<and> \<not> spec_recognizedShape (JsonPayload JNull)
   \<and> completion (handleErrorResponse stubCollaborators responseJsonNull ''POST'')
       = Inl (TypeError ''Cannot read properties of null (reading Error)'')
   \<and> completion (handleErrorResponse stubCollaborators responseJsonNull ''POST'')
       \<noteq> Inl (JsError ''Unrecognizable error response of type application/json'')"
  by (simp add: spec_payload_def handleErrorResponse_def responseJsonNull_def
      responseJsonEmpty_def stubCollaborators_def Headers_get_def startsWith_def truthyOpt_def
      truthyStr_def getProp_def throws_def optChain_def truthyJ_def)

subsection \<open>The signing region\<close>

lemma s3HostRouting_keeps:
  "region (s3HostRouting fac meta opts) = region opts"
  "skipSigning (s3HostRouting fac meta opts) = skipSigning opts"
  by (simp_all add: s3HostRouting_def Let_def)

lemma resolveSigningRegion_routed:
  "resolveSigningRegion fac meta (s3HostRouting fac' meta' opts) creds
     = resolveSigningRegion fac meta opts creds"
  by (simp add: resolveSigningRegion_def s3HostRouting_keeps)

lemma signingRegionOf_prepare:
  assumes "\<not> skipSigning opts" and "fac_credentials fac w = (Inr creds, w1)"
  shows "signingRegionOf (signingFetcher_prepare fac meta request opts w)
           = map_sum id Some (resolveSigningRegion fac meta opts creds)"
  using assms
  by (simp add: signingFetcher_prepare_def signingRegionOf_def Let_def s3HostRouting_keeps
      resolveSigningRegion_routed split: sum.splits)

text \<open>
  Claim C3, as amended. For every signed request whose credentials resolve, the signing
  region is resolved with precedence: the per-call override first; without an override, a
  service whose metadata declares a global endpoint is signed for the fixed region
  \<open>us-east-1\<close>, whatever the factory and the credentials say; for any other service the
  factory-configured region comes next, then the region hint of the resolved credentials;
  and when all of these are absent the call fails with the missing-region error.
\<close>

theorem signing_region_precedence:
  assumes "\<not> skipSigning opts" and "fac_credentials fac w = (Inr creds, w1)"
  shows "(\<forall>r. region opts = Some r \<longrightarrow>
            signingRegionOf (signingFetcher_prepare fac meta request opts w) = Inr (Some r))
       \<and> (region opts = None \<and> truthyOpt (globalEndpoint meta) \<longrightarrow>
            signingRegionOf (signingFetcher_prepare fac meta request opts w)
              = Inr (Some ''us-east-1''))
       \<and> (\<forall>r. region opts = None \<and> \<not> truthyOpt (globalEndpoint meta)
              \<and> fac_region fac = Some r \<longrightarrow>
            signingRegionOf (signingFetcher_prepare fac meta request opts w) = Inr (Some r))
       \<and> (\<forall>r. region opts = None \<and> \<not> truthyOpt (globalEndpoint meta)
              \<and> fac_region fac = None \<and> cred_region creds = Some r \<longrightarrow>
            signingRegionOf (signingFetcher_prepare fac meta request opts w) = Inr (Some r))
       \<and> (region opts = None \<and> \<not> truthyOpt (globalEndpoint meta)
              \<and> fac_region fac = None \<and> cred_region creds = None \<longrightarrow>
            signingFetcher_prepare fac meta request opts w = (Inl throwMissingRegion, w1))"
proof -
  have missing: "signingFetcher_prepare fac meta request opts w = (Inl throwMissingRegion, w1)"
    if "resolveSigningRegion fac meta opts creds = Inl throwMissingRegion"
    using that assms
    by (simp add: signingFetcher_prepare_def Let_def s3HostRouting_keeps
        resolveSigningRegion_routed)
  show ?thesis
    using missing
    by (auto simp: signingRegionOf_prepare [OF assms] resolveSigningRegion_def)
qed

text \<open>
  The amended claim for a regional service: the factory region, a per-call override, and
  the missing-region error when nothing gives a region.
\<close>

theorem signing_region_precedence_witness:
  "signingRegionOf (signingFetcher_prepare euFactory sqsMetadata postRequest rootOpts ())
     = Inr (Some ''eu-west-1'')
   \<and> signingRegionOf (signingFetcher_prepare euFactory sqsMetadata postRequest
        (rootOpts \<lparr> region := Some ''us-west-2'' \<rparr>) ()) = Inr (Some ''us-west-2'')
   \<and> signingFetcher_prepare (euFactory \<lparr> fac_region := None,
          fac_credentials := (\<lambda>w. (Inr (staticCredentials \<lparr> cred_region := None \<rparr>), w)) \<rparr>)
        sqsMetadata postRequest rootOpts () = (Inl throwMissingRegion, ())"
  using signing_region_precedence [of rootOpts euFactory "()" staticCredentials "()"
      sqsMetadata postRequest]
    signing_region_precedence [of "rootOpts \<lparr> region := Some ''us-west-2'' \<rparr>" euFactory "()"
      staticCredentials "()" sqsMetadata postRequest]
    signing_region_precedence [of rootOpts "euFactory \<lparr> fac_region := None,
          fac_credentials := (\<lambda>w. (Inr (staticCredentials \<lparr> cred_region := None \<rparr>), w)) \<rparr>" "()"
      "staticCredentials \<lparr> cred_region := None \<rparr>" "()" sqsMetadata postRequest]
  by (simp add: rootOpts_def euFactory_def sqsMetadata_def truthyOpt_def staticCredentials_def)

text \<open>
  Claim C3 as stated fails: for a global service called without an override through a
  factory configured for \<open>eu-west-1\<close>, the request is signed for \<open>us-east-1\<close>, not for
  the factory-configured region.
\<close>

theorem global_service_region_counterexample:
  "region rootOpts = None \<and> fac_region euFactory = Some ''eu-west-1''
   \<and> signingRegionOf (signingFetcher_prepare euFactory iamMetadata postRequest rootOpts ())
       = Inr (Some ''us-east-1'')"
  by (simp add: signingFetcher_prepare_def signingRegionOf_def Let_def s3HostRouting_def
      resolveSigningRegion_def rootOpts_def euFactory_def iamMetadata_def truthyOpt_def
      truthyStr_def)

subsection \<open>Host routing for storage buckets\<close>

lemma includesStr_char: "includesStr s [c] \<longleftrightarrow> c \<in> set s"
proof
  assume "includesStr s [c]"
  then show "c \<in> set s" by (auto simp: includesStr_def sublist_def)
next
  assume "c \<in> set s"
  then obtain ps ss where "s = ps @ c # ss" by (meson split_list)
  then show "includesStr s [c]" by (auto simp: includesStr_def sublist_def)
qed

lemma first_segment:
  assumes "\<forall>c \<in> set seg. c \<noteq> CHR ''?'' \<and> c \<noteq> CHR ''/''"
    and "rest = [] \<or> startsWith rest ''/'' \<or> startsWith rest ''?''"
  shows "takeWhile (\<lambda>c. c \<noteq> CHR ''?'' \<and> c \<noteq> CHR ''/'') (drop 1 (CHR ''/'' # seg @ rest)) = seg"
proof -
  have "takeWhile (\<lambda>c. c \<noteq> CHR ''?'' \<and> c \<noteq> CHR ''/'') rest = []"
    using assms(2) by (auto simp: startsWith_def prefix_def)
  then show ?thesis using assms(1) by simp
qed

text \<open>
  Claim C4. For a call of the storage service (service id \<open>S3\<close>) with no host prefix and
  no fixed endpoint in effect, whose path is \<open>/\<close>, a non-empty first segment without a
  dot, and a rest that is empty or starts with \<open>/\<close> or \<open>?\<close>, the fetcher rewrites the
  options to subdomain form: the host prefix becomes the segment followed by a dot, and the
  path becomes the rest (with a leading \<open>/\<close> put in front when the rest does not start
  with one), so \<open>/my-bucket/key\<close> gives host prefix \<open>my-bucket.\<close> and path \<open>/key\<close>.
  The options are left as they are when a host prefix or a fixed endpoint is in effect, and
  when the first segment contains a dot. In effect means a non-empty string, the test the
  source makes.
\<close>

theorem s3_bucket_rewrite:
  "(serviceId meta = ''S3'' \<and> \<not> truthyOpt (hostPrefix opts) \<and> \<not> truthyOpt (fixedEndpoint fac)
      \<and> urlPath opts = CHR ''/'' # bucket @ rest
      \<and> bucket \<noteq> [] \<and> (\<forall>c \<in> set bucket. c \<noteq> CHR ''?'' \<and> c \<noteq> CHR ''/'')
      \<and> (rest = [] \<or> startsWith rest ''/'' \<or> startsWith rest ''?'')
      \<and> CHR ''.'' \<notin> set bucket
    \<longrightarrow> s3HostRouting fac meta opts
          = opts \<lparr> hostPrefix := Some (bucket @ ''.''),
                   urlPath := (if startsWith rest ''/'' then rest else ''/'' @ rest) \<rparr>)
   \<and> (truthyOpt (hostPrefix opts) \<or> truthyOpt (fixedEndpoint fac)
        \<longrightarrow> s3HostRouting fac meta opts = opts)
   \<and> (urlPath opts = CHR ''/'' # bucket @ rest
      \<and> (\<forall>c \<in> set bucket. c \<noteq> CHR ''?'' \<and> c \<noteq> CHR ''/'')
      \<and> (rest = [] \<or> startsWith rest ''/'' \<or> startsWith rest ''?'')
      \<and> CHR ''.'' \<in> set bucket
    \<longrightarrow> s3HostRouting fac meta opts = opts)"
proof (intro conjI impI)
  assume a: "serviceId meta = ''S3'' \<and> \<not> truthyOpt (hostPrefix opts) \<and> \<not> truthyOpt (fixedEndpoint fac)
      \<and> urlPath opts = CHR ''/'' # bucket @ rest
      \<and> bucket \<noteq> [] \<and> (\<forall>c \<in> set bucket. c \<noteq> CHR ''?'' \<and> c \<noteq> CHR ''/'')
      \<and> (rest = [] \<or> startsWith rest ''/'' \<or> startsWith rest ''?'')
      \<and> CHR ''.'' \<notin> set bucket"
  then have seg: "takeWhile (\<lambda>c. c \<noteq> CHR ''?'' \<and> c \<noteq> CHR ''/'') (drop 1 (urlPath opts)) = bucket"
    using first_segment [of bucket rest] by simp
  have path: "drop (length bucket + 1) (urlPath opts) = rest"
    using a by simp
  show "s3HostRouting fac meta opts
          = opts \<lparr> hostPrefix := Some (bucket @ ''.''),
                   urlPath := (if startsWith rest ''/'' then rest else ''/'' @ rest) \<rparr>"
    using a unfolding s3HostRouting_def seg Let_def path
    by (simp add: truthyStr_def includesStr_char)
next
  assume "truthyOpt (hostPrefix opts) \<or> truthyOpt (fixedEndpoint fac)"
  then show "s3HostRouting fac meta opts = opts"
    by (auto simp: s3HostRouting_def)
next
  assume a: "urlPath opts = CHR ''/'' # bucket @ rest
      \<and> (\<forall>c \<in> set bucket. c \<noteq> CHR ''?'' \<and> c \<noteq> CHR ''/'')
      \<and> (rest = [] \<or> startsWith rest ''/'' \<or> startsWith rest ''?'')
      \<and> CHR ''.'' \<in> set bucket"
  then have seg: "takeWhile (\<lambda>c. c \<noteq> CHR ''?'' \<and> c \<noteq> CHR ''/'') (drop 1 (urlPath opts)) = bucket"
    using first_segment [of bucket rest] by simp
  show "s3HostRouting fac meta opts = opts"
    using a unfolding s3HostRouting_def seg Let_def
    by (simp add: includesStr_char)
qed

text \<open>
  The claim at the path \<open>/my-bucket/key\<close>: rewritten; with a host prefix, with a fixed
  endpoint, and with a dot in the first segment: unchanged. The last conjunct is the
  request the fetcher prepares from the rewritten options.
\<close>

theorem s3_bucket_rewrite_witness:
  "s3HostRouting euFactory s3Metadata bucketOpts
     = bucketOpts \<lparr> hostPrefix := Some ''my-bucket.'', urlPath := ''/key'' \<rparr>
   \<and> s3HostRouting euFactory s3Metadata (bucketOpts \<lparr> hostPrefix := Some ''data.'' \<rparr>)
     = bucketOpts \<lparr> hostPrefix := Some ''data.'' \<rparr>
   \<and> s3HostRouting (euFactory \<lparr> fixedEndpoint := Some ''http://localhost:9000'' \<rparr>)
        s3Metadata bucketOpts = bucketOpts
   \<and> s3HostRouting euFactory s3Metadata (bucketOpts \<lparr> urlPath := ''/my.bucket/key'' \<rparr>)
     = bucketOpts \<lparr> urlPath := ''/my.bucket/key'' \<rparr>
   \<and> signingFetcher_prepare euFactory s3Metadata postRequest bucketOpts ()
     = (Inr \<lparr> endpoint = ''https://my-bucket.s3.dualstack.us-east-1.amazonaws.com'',
              out_urlPath = ''/key'', out_hostPrefix = Some ''my-bucket.'',
              out_request = postRequest,
              signWith = Some \<lparr> sign_region = ''us-east-1'',
                sign_credentials = staticCredentials, sign_name = ''s3'' \<rparr> \<rparr>, ())"
  using s3_bucket_rewrite [of s3Metadata bucketOpts euFactory "''my-bucket''" "''/key''"]
    s3_bucket_rewrite [of s3Metadata "bucketOpts \<lparr> hostPrefix := Some ''data.'' \<rparr>" euFactory]
    s3_bucket_rewrite [of s3Metadata bucketOpts
      "euFactory \<lparr> fixedEndpoint := Some ''http://localhost:9000'' \<rparr>"]
    s3_bucket_rewrite [of s3Metadata "bucketOpts \<lparr> urlPath := ''/my.bucket/key'' \<rparr>" euFactory
      "''my.bucket''" "''/key''"]
  by (simp add: s3Metadata_def bucketOpts_def euFactory_def truthyOpt_def truthyStr_def
      startsWith_def signingFetcher_prepare_def s3HostRouting_def Let_def includesStr_char
      resolveSigningRegion_def getRootDomain_def dualStackEc2Regions_def regionalEndpoint_def
      assembleEndpoint_def globalOr_def globalEndpointPrefix_def dualstackEndpointPrefix_def)

subsection \<open>Constructing the factory\<close>

lemma includes_scheme_truthy: "includesStr fe ''://'' \<Longrightarrow> truthyStr fe"
  by (auto simp: includesStr_def truthyStr_def)

lemma prepare_fixedEndpoint:
  assumes "fixedEndpoint fac = Some fe" and "truthyStr fe"
  shows "case endpointOf (signingFetcher_prepare fac meta request opts w) of
           Inl e \<Rightarrow> True | Inr ep \<Rightarrow> ep = fe"
  using assms
  by (simp add: signingFetcher_prepare_def endpointOf_def Let_def
      split: sum.splits prod.splits option.splits)

text \<open>
  Claim C9. Constructing the factory with neither a fixed credentials value nor a
  credentials provider throws the configuration error. A fixed credentials value becomes a
  provider that resolves to that value in every state of the world and leaves the world as
  it is. A fixed endpoint without a scheme (without \<open>://\<close>, the test the source makes)
  makes the construction throw, and throw the fixed-endpoint configuration error once the
  credentials source and the region are settled. With a fixed endpoint given, the factory
  keeps it and keeps no base domain, whatever base domain was supplied, and every request
  it prepares goes to the fixed endpoint. The last conjunct shows a construction that
  succeeds.
\<close>

theorem BaseApiFactory_new_configuration:
  "(credentials opts = None \<and> credentialProvider opts = None \<longrightarrow>
      BaseApiFactory_new envRegion opts = Inl (JsError
        (''No credentials or credential source provided -- ''
         @ ''you must provide one to use this class directly'')))
   \<and> (\<forall>c fac. credentials opts = Some c \<and> BaseApiFactory_new envRegion opts = Inr fac \<longrightarrow>
        (\<forall>w. fac_credentials fac w = (Inr c, w)))
   \<and> (\<forall>fe. opt_fixedEndpoint opts = Some fe \<and> \<not> includesStr fe ''://'' \<longrightarrow>
        (\<exists>e. BaseApiFactory_new envRegion opts = Inl e)
        \<and> ((credentials opts \<noteq> None \<or> credentialProvider opts \<noteq> None)
             \<and> (opt_region opts \<noteq> None
                  \<or> (\<forall>n m. envRegion = Inl (n, m) \<longrightarrow> n = ''PermissionDenied'')) \<longrightarrow>
            BaseApiFactory_new envRegion opts = Inl (JsError
              ''If provided, fixedEndpoint must be a full URL including https:// or http://'')))
   \<and> (\<forall>fe fac. opt_fixedEndpoint opts = Some fe \<and> BaseApiFactory_new envRegion opts = Inr fac \<longrightarrow>
        fixedEndpoint fac = Some fe \<and> baseDomain fac = None
        \<and> (\<forall>meta request fopts w.
              case endpointOf (signingFetcher_prepare fac meta request fopts w) of
                Inl e \<Rightarrow> True | Inr ep \<Rightarrow> ep = fe))
   \<and> (\<forall>c fe. credentials opts = Some c \<and> opt_fixedEndpoint opts = Some fe
          \<and> includesStr fe ''://''
          \<and> (opt_region opts \<noteq> None
               \<or> (\<forall>n m. envRegion = Inl (n, m) \<longrightarrow> n = ''PermissionDenied'')) \<longrightarrow>
        (\<exists>reg. BaseApiFactory_new envRegion opts
           = Inr \<lparr> fac_credentials = (\<lambda>w. (Inr c, w)), fac_region = reg,
                   fixedEndpoint = Some fe, baseDomain = None \<rparr>))"
proof (intro conjI allI impI)
  assume "credentials opts = None \<and> credentialProvider opts = None"
  then show "BaseApiFactory_new envRegion opts = Inl (JsError
        (''No credentials or credential source provided -- ''
         @ ''you must provide one to use this class directly''))"
    by (simp add: BaseApiFactory_new_def)
next
  fix c fac w
  assume "credentials opts = Some c \<and> BaseApiFactory_new envRegion opts = Inr fac"
  then show "fac_credentials fac w = (Inr c, w)"
    by (auto simp: BaseApiFactory_new_def split: option.splits sum.splits prod.splits if_splits)
next
  fix fe
  assume "opt_fixedEndpoint opts = Some fe \<and> \<not> includesStr fe ''://''"
  then show "\<exists>e. BaseApiFactory_new envRegion opts = Inl e"
    by (auto simp: BaseApiFactory_new_def split: option.splits sum.splits prod.splits)
next
  fix fe
  assume a: "opt_fixedEndpoint opts = Some fe \<and> \<not> includesStr fe ''://''"
    and b: "(credentials opts \<noteq> None \<or> credentialProvider opts \<noteq> None)
             \<and> (opt_region opts \<noteq> None
                  \<or> (\<forall>n m. envRegion = Inl (n, m) \<longrightarrow> n = ''PermissionDenied''))"
  then show "BaseApiFactory_new envRegion opts = Inl (JsError
              ''If provided, fixedEndpoint must be a full URL including https:// or http://'')"
    by (auto simp: BaseApiFactory_new_def split: option.splits sum.splits prod.splits)
next
  fix fe fac
  assume a: "opt_fixedEndpoint opts = Some fe \<and> BaseApiFactory_new envRegion opts = Inr fac"
  then show "fixedEndpoint fac = Some fe"
    by (auto simp: BaseApiFactory_new_def split: option.splits sum.splits prod.splits if_splits)
next
  fix fe fac
  assume a: "opt_fixedEndpoint opts = Some fe \<and> BaseApiFactory_new envRegion opts = Inr fac"
  then show "baseDomain fac = None"
    by (auto simp: BaseApiFactory_new_def split: option.splits sum.splits prod.splits if_splits)
next
  fix fe fac meta request fopts and w :: 'a
  assume a: "opt_fixedEndpoint opts = Some fe \<and> BaseApiFactory_new envRegion opts = Inr fac"
  then have f: "fixedEndpoint fac = Some fe" and i: "includesStr fe ''://''"
    by (auto simp: BaseApiFactory_new_def split: option.splits sum.splits prod.splits if_splits)
  show "case endpointOf (signingFetcher_prepare fac meta request fopts w) of
                Inl e \<Rightarrow> True | Inr ep \<Rightarrow> ep = fe"
    using f includes_scheme_truthy [OF i] by (rule prepare_fixedEndpoint)
next
  fix c fe
  assume "credentials opts = Some c \<and> opt_fixedEndpoint opts = Some fe
          \<and> includesStr fe ''://''
          \<and> (opt_region opts \<noteq> None
               \<or> (\<forall>n m. envRegion = Inl (n, m) \<longrightarrow> n = ''PermissionDenied''))"
  then show "\<exists>reg. BaseApiFactory_new envRegion opts
           = Inr \<lparr> fac_credentials = (\<lambda>w. (Inr c, w)), fac_region = reg,
                   fixedEndpoint = Some fe, baseDomain = None \<rparr>"
    by (auto simp: BaseApiFactory_new_def split: option.splits sum.splits prod.splits)
qed

text \<open>
  The claim at three constructions: no credentials source; a fixed endpoint without a
  scheme; fixed credentials with both a fixed endpoint and a base domain.
\<close>

theorem BaseApiFactory_new_configuration_witness:
  "BaseApiFactory_new (Inr None) noCredentialOpts = Inl (JsError
     ''No credentials or credential source provided -- you must provide one to use this class directly'')
   \<and> BaseApiFactory_new (Inr None) (minioOpts \<lparr> opt_fixedEndpoint := Some ''localhost:9000'' \<rparr>)
     = Inl (JsError
        ''If provided, fixedEndpoint must be a full URL including https:// or http://'')
   \<and> BaseApiFactory_new (Inr None) minioOpts
     = Inr \<lparr> fac_credentials = (\<lambda>w. (Inr staticCredentials, w)), fac_region = Some ''us-east-1'',
             fixedEndpoint = Some ''http://localhost:9000'', baseDomain = None \<rparr>"
proof -
  have i: "includesStr ''http://localhost:9000'' ''://''" "\<not> includesStr ''localhost:9000'' ''://''"
    by code_simp+
  show ?thesis
    using BaseApiFactory_new_configuration [of noCredentialOpts "Inr None"]
      BaseApiFactory_new_configuration [of
        "minioOpts \<lparr> opt_fixedEndpoint := Some ''localhost:9000'' \<rparr>" "Inr None"]
      BaseApiFactory_new_configuration [of minioOpts "Inr None"]
    by (simp add: noCredentialOpts_def minioOpts_def i BaseApiFactory_new_def)
qed

subsection \<open>The branch on the response status\<close>

lemma statusBranch_thrown: "statusBranch deps config request (Inl e) = (Inl e, [])"
  by (simp add: statusBranch_def)

text \<open>
  Claim C1. A call of the shared dispatch routine that gets no response throws: the
  exception of the \<open>Request\<close> constructor, before the fetcher is asked, or the exception
  of the fetcher. When the fetcher answers with a response, the outcome is decided by the
  status, read against the expected success code (default 200) in the order of the source:
  a status equal to the expected code returns the response as success with nothing logged;
  any other status of at least 400 goes to the error classifier and the call throws what the
  classifier throws, so for an expected code below 400 every status of at least 400 throws
  and none is a success; any other status in 200-299 returns the response as success after
  one warning line; every remaining status throws the
  \<open>BUG: Unexpected HTTP response status\<close> error.
\<close>

theorem performRequest_status_dispatch:
  "(\<forall>e. baseRequest config hdrs reqBody = Inl e \<longrightarrow>
       BaseServiceClient_performRequest deps signedFetcher config hdrs reqBody w = (Inl e, [], w))
   \<and> (\<forall>request e w1. baseRequest config hdrs reqBody = Inr request
          \<and> signedFetcher request (baseFetchOpts config) w = (Inl e, w1) \<longrightarrow>
       BaseServiceClient_performRequest deps signedFetcher config hdrs reqBody w = (Inl e, [], w1))
   \<and> (\<forall>request response w1. baseRequest config hdrs reqBody = Inr request
          \<and> signedFetcher request (baseFetchOpts config) w = (Inr response, w1) \<longrightarrow>
       (let expected = (case responseCode config of None \<Rightarrow> 200 | Some c \<Rightarrow> c);
            res = BaseServiceClient_performRequest deps signedFetcher config hdrs reqBody w;
            h = handleErrorResponse deps response (req_method request)
        in (int (status response) = expected \<longrightarrow> res = (Inr response, [], w1))
         \<and> (int (status response) \<noteq> expected \<and> status response \<ge> 400 \<longrightarrow>
              (\<exists>e. completion h = Inl e \<and> res = (Inl e, logged h, w1)))
         \<and> (expected < 400 \<and> status response \<ge> 400 \<longrightarrow>
              (\<exists>e. completion h = Inl e \<and> res = (Inl e, logged h, w1)))
         \<and> (int (status response) \<noteq> expected \<and> 200 \<le> status response
                \<and> status response < 300 \<longrightarrow>
              res = (Inr response,
                     [[LStr (''WARN: '' @ action config @ '' response was unexpected success ''
                              @ show_nat (status response))]], w1))
         \<and> (int (status response) \<noteq> expected \<and> status response < 400
                \<and> \<not> (200 \<le> status response \<and> status response < 300) \<longrightarrow>
              res = (Inl (JsError (''BUG: Unexpected HTTP response status ''
                                    @ show_nat (status response))), [], w1))))"
proof (intro conjI allI impI)
  fix e assume "baseRequest config hdrs reqBody = Inl e"
  then show "BaseServiceClient_performRequest deps signedFetcher config hdrs reqBody w
               = (Inl e, [], w)"
    by (simp add: BaseServiceClient_performRequest_def)
next
  fix request e w1
  assume "baseRequest config hdrs reqBody = Inr request
          \<and> signedFetcher request (baseFetchOpts config) w = (Inl e, w1)"
  then show "BaseServiceClient_performRequest deps signedFetcher config hdrs reqBody w
               = (Inl e, [], w1)"
    by (simp add: BaseServiceClient_performRequest_def statusBranch_def)
next
  fix request response w1
  assume a: "baseRequest config hdrs reqBody = Inr request
          \<and> signedFetcher request (baseFetchOpts config) w = (Inr response, w1)"
  obtain e where e: "completion (handleErrorResponse deps response (req_method request)) = Inl e"
    using handleErrorResponse_throws by blast
  show "(let expected = (case responseCode config of None \<Rightarrow> 200 | Some c \<Rightarrow> c);
            res = BaseServiceClient_performRequest deps signedFetcher config hdrs reqBody w;
            h = handleErrorResponse deps response (req_method request)
        in (int (status response) = expected \<longrightarrow> res = (Inr response, [], w1))
         \<and> (int (status response) \<noteq> expected \<and> status response \<ge> 400 \<longrightarrow>
              (\<exists>e. completion h = Inl e \<and> res = (Inl e, logged h, w1)))
         \<and> (expected < 400 \<and> status response \<ge> 400 \<longrightarrow>
              (\<exists>e. completion h = Inl e \<and> res = (Inl e, logged h, w1)))
         \<and> (int (status response) \<noteq> expected \<and> 200 \<le> status response
                \<and> status response < 300 \<longrightarrow>
              res = (Inr response,
                     [[LStr (''WARN: '' @ action config @ '' response was unexpected success ''
                              @ show_nat (status response))]], w1))
         \<and> (int (status response) \<noteq> expected \<and> status response < 400
                \<and> \<not> (200 \<le> status response \<and> status response < 300) \<longrightarrow>
              res = (Inl (JsError (''BUG: Unexpected HTTP response status ''
                                    @ show_nat (status response))), [], w1)))"
    using a e
    by (auto simp: BaseServiceClient_performRequest_def statusBranch_def Let_def)
qed

lemma baseRequest_default:
  "baseRequest configDefault [] None
     = Inr \<lparr> req_method = ''POST'', req_headers = [], req_body = None \<rparr>"
  by (simp add: baseRequest_def configDefault_def)

text \<open>
  The claim at calls expecting 200 and answered 200, 204, and 502 with an HTML page, and at a
  \<open>GET\<close> call with a body, which the \<open>Request\<close> constructor refuses.
\<close>

theorem performRequest_status_dispatch_witness:
  "BaseServiceClient_performRequest stubCollaborators (answering responseOk)
       configDefault [] None () = (Inr responseOk, [], ())
   \<and> BaseServiceClient_performRequest stubCollaborators (answering responseNoContent)
       configDefault [] None ()
     = (Inr responseNoContent,
        [[LStr ''WARN: GetThing response was unexpected success 204'']], ())
   \<and> BaseServiceClient_performRequest stubCollaborators (answering responseHtml)
       configDefault [] None ()
     = (Inl (JsError ''Unrecognizable error response of type text/html''),
        [[LStr ''Error body:'', LStr ''<html/>'']], ())
   \<and> BaseServiceClient_performRequest stubCollaborators (answering responseOk)
       (configDefault \<lparr> cfg_method := Some GET \<rparr>) [] (Some [123, 125]) ()
     = (Inl (TypeError ''Request with GET/HEAD method cannot have body.''), [], ())"
proof -
  have n: "show_nat 204 = ''204''" by code_simp
  have s: "status responseNoContent = 204" "status responseHtml = 502" "status responseOk = 200"
    by (simp_all add: responseNoContent_def responseHtml_def responseOk_def)
  have m: "responseCode configDefault = None" "action configDefault = ''GetThing''"
    by (simp_all add: configDefault_def)
  have g: "baseRequest (configDefault \<lparr> cfg_method := Some GET \<rparr>) [] (Some [123, 125])
             = Inl (TypeError ''Request with GET/HEAD method cannot have body.'')"
    by (simp add: baseRequest_def)
  have h: "handleErrorResponse stubCollaborators responseHtml ''POST'' =
     \<lparr> completion = Inl (JsError ''Unrecognizable error response of type text/html''),
       logged = [[LStr ''Error body:'', LStr ''<html/>'']], bodyUsed = True \<rparr>"
    by (simp add: handleErrorResponse_def responseHtml_def Headers_get_def startsWith_def
        truthyOpt_def truthyStr_def throws_def unrecognizable_def)
  show ?thesis
    using performRequest_status_dispatch [of configDefault "[]" None stubCollaborators
        "answering responseOk" "()"]
      performRequest_status_dispatch [of configDefault "[]" None stubCollaborators
        "answering responseNoContent" "()"]
      performRequest_status_dispatch [of configDefault "[]" None stubCollaborators
        "answering responseHtml" "()"]
      performRequest_status_dispatch [of "configDefault \<lparr> cfg_method := Some GET \<rparr>" "[]"
        "Some [123, 125]" stubCollaborators "answering responseOk" "()"]
    by (simp add: answering_def Let_def n s m h g baseRequest_default)
qed

subsection \<open>Dual-stack endpoints\<close>

lemma resolveUnsignedRegion_routed:
  "resolveUnsignedRegion fac (s3HostRouting fac' meta opts) w = resolveUnsignedRegion fac opts w"
  by (simp add: resolveUnsignedRegion_def s3HostRouting_keeps)

lemma endpointOf_signed:
  assumes "\<not> skipSigning opts"
    and "signingRegionOf (signingFetcher_prepare fac meta request opts w) = Inr (Some r)"
    and "fixedEndpoint fac = None" and "baseDomain fac = None"
  shows "endpointOf (signingFetcher_prepare fac meta request opts w)
           = Inr (regionalEndpoint (s3HostRouting fac meta opts) meta
                    (getRootDomain (serviceId meta) (Some r)) r)"
proof (cases "fac_credentials fac w")
  case (Pair ans w1)
  show ?thesis
  proof (cases ans)
    case (Inl e)
    then show ?thesis
      using assms(1,2) Pair
      by (simp add: signingFetcher_prepare_def signingRegionOf_def Let_def s3HostRouting_keeps)
  next
    case (Inr creds)
    then have c: "fac_credentials fac w = (Inr creds, w1)" using Pair by simp
    have "map_sum id Some (resolveSigningRegion fac meta opts creds) = Inr (Some r)"
      using assms(2) signingRegionOf_prepare [OF assms(1) c] by simp
    then have r: "resolveSigningRegion fac meta opts creds = Inr r"
      by (cases "resolveSigningRegion fac meta opts creds") simp_all
    show ?thesis
      using assms(1,3,4) c r
      by (simp add: signingFetcher_prepare_def endpointOf_def Let_def s3HostRouting_keeps
          resolveSigningRegion_routed)
  qed
qed

lemma endpointOf_unsigned:
  assumes "skipSigning opts"
    and "fst (resolveUnsignedRegion fac opts w) = Some r"
    and "fixedEndpoint fac = None" and "baseDomain fac = None"
  shows "endpointOf (signingFetcher_prepare fac meta request opts w)
           = Inr (regionalEndpoint (s3HostRouting fac meta opts) meta
                    (getRootDomain (serviceId meta) (Some r)) r)"
proof (cases "resolveUnsignedRegion fac opts w")
  case (Pair reg w1)
  then have "reg = Some r" using assms(2) by simp
  then show ?thesis
    using assms(1,3,4) Pair
    by (simp add: signingFetcher_prepare_def endpointOf_def Let_def s3HostRouting_keeps
        resolveUnsignedRegion_routed)
qed

lemma getRootDomain_aws:
  "getRootDomain sid (Some r) = ''aws'' \<longleftrightarrow> sid = ''EC2'' \<and> r \<in> dualStackEc2Regions"
  by (simp add: getRootDomain_def)

lemma s3HostRouting_other: "serviceId meta \<noteq> ''S3'' \<Longrightarrow> s3HostRouting fac meta opts = opts"
  by (simp add: s3HostRouting_def)

text \<open>
  Claim C5, as amended. Take a request, signed or unsigned, whose region resolves to a
  region \<open>r\<close>, sent through a factory with no fixed endpoint and no base-domain override,
  to a service whose metadata gives no global endpoint prefix. Then the compute service
  (service id \<open>EC2\<close>) is addressed in its dual-stack form
  \<open>https://{host prefix}api.{endpoint prefix}.{r}.aws\<close> when \<open>r\<close> is in the fixed
  allow-list, and in its standard form
  \<open>https://{host prefix}{endpoint prefix}.{r}.{partition domain}\<close>, never on the domain
  \<open>aws\<close>, when it is not; and the storage service (service id \<open>S3\<close>) is addressed as
  \<open>https://{host prefix}s3.dualstack.{r}.{partition domain}\<close> in every region, with no
  allow-list.
\<close>

theorem dualstack_gating:
  assumes "fixedEndpoint fac = None" and "baseDomain fac = None"
    and "\<not> truthyOpt (globalEndpointPrefix meta)"
    and "(\<not> skipSigning opts
            \<and> signingRegionOf (signingFetcher_prepare fac meta request opts w) = Inr (Some r))
         \<or> (skipSigning opts \<and> fst (resolveUnsignedRegion fac opts w) = Some r)"
  shows "(serviceId meta = ''EC2'' \<and> r \<in> dualStackEc2Regions \<longrightarrow>
            endpointOf (signingFetcher_prepare fac meta request opts w)
              = Inr (''https://'' @ hostPrefixStr opts @ ''api.'' @ endpointPrefix meta
                       @ ''.'' @ r @ ''.aws''))
       \<and> (serviceId meta = ''EC2'' \<and> r \<notin> dualStackEc2Regions \<longrightarrow>
            endpointOf (signingFetcher_prepare fac meta request opts w)
              = Inr (''https://'' @ hostPrefixStr opts @ endpointPrefix meta
                       @ ''.'' @ r @ ''.'' @ getRootDomain ''EC2'' (Some r))
            \<and> getRootDomain ''EC2'' (Some r) \<noteq> ''aws'')
       \<and> (serviceId meta = ''S3'' \<longrightarrow>
            endpointOf (signingFetcher_prepare fac meta request opts w)
              = Inr (''https://'' @ hostPrefixStr (s3HostRouting fac meta opts)
                       @ ''s3.dualstack.'' @ r @ ''.'' @ getRootDomain ''S3'' (Some r))
            \<and> getRootDomain ''S3'' (Some r) \<noteq> ''aws'')"
proof -
  have g: "globalOr meta x = x" for x
    using assms(3) by (simp add: globalOr_def truthyOpt_def split: option.splits)
  have ep: "endpointOf (signingFetcher_prepare fac meta request opts w)
           = Inr (regionalEndpoint (s3HostRouting fac meta opts) meta
                    (getRootDomain (serviceId meta) (Some r)) r)"
    using assms(4) endpointOf_signed [OF _ _ assms(1,2)] endpointOf_unsigned [OF _ _ assms(1,2)]
    by blast
  show ?thesis
    unfolding ep
    by (auto simp: regionalEndpoint_def assembleEndpoint_def g dualstackEndpointPrefix_def
        hostPrefixStr_def getRootDomain_aws s3HostRouting_other)
qed

text \<open>
  The amended claim for the compute service in an allow-listed region and in a region off
  the list, for the storage service, and for an unsigned request of the compute service in
  the region of the factory.
\<close>

theorem dualstack_gating_witness:
  "endpointOf (signingFetcher_prepare euFactory ec2Metadata postRequest
       (rootOpts \<lparr> region := Some ''us-west-2'' \<rparr>) ())
     = Inr ''https://api.ec2.us-west-2.aws''
   \<and> endpointOf (signingFetcher_prepare euFactory ec2Metadata postRequest
       (rootOpts \<lparr> region := Some ''ap-northeast-1'' \<rparr>) ())
     = Inr ''https://ec2.ap-northeast-1.amazonaws.com''
   \<and> endpointOf (signingFetcher_prepare euFactory s3Metadata postRequest
       (rootOpts \<lparr> region := Some ''us-east-1'' \<rparr>) ())
     = Inr ''https://s3.dualstack.us-east-1.amazonaws.com''
   \<and> endpointOf (signingFetcher_prepare euFactory ec2Metadata postRequest
       (rootOpts \<lparr> skipSigning := True \<rparr>) ())
     = Inr ''https://api.ec2.eu-west-1.aws''"
proof -
  have c: "fac_credentials euFactory () = (Inr staticCredentials, ())"
    "fixedEndpoint euFactory = None" "baseDomain euFactory = None"
    by (simp_all add: euFactory_def)
  have s: "\<not> skipSigning (rootOpts \<lparr> region := Some x \<rparr>)" for x
    by (simp add: rootOpts_def)
  have r: "signingRegionOf (signingFetcher_prepare euFactory meta postRequest
              (rootOpts \<lparr> region := Some x \<rparr>) ()) = Inr (Some x)" for meta x
    using signingRegionOf_prepare [OF s c(1)] by (simp add: resolveSigningRegion_def)
  have u: "skipSigning (rootOpts \<lparr> skipSigning := True \<rparr>)
      \<and> fst (resolveUnsignedRegion euFactory (rootOpts \<lparr> skipSigning := True \<rparr>) ())
          = Some ''eu-west-1''"
    by (simp add: resolveUnsignedRegion_def rootOpts_def euFactory_def)
  have g: "\<not> truthyOpt (globalEndpointPrefix ec2Metadata)"
    "\<not> truthyOpt (globalEndpointPrefix s3Metadata)"
    by (simp_all add: globalEndpointPrefix_def ec2Metadata_def s3Metadata_def truthyOpt_def)
  show ?thesis
    using dualstack_gating [OF c(2,3) g(1) disjI1 [OF conjI [OF s r]], of "''us-west-2''"]
      dualstack_gating [OF c(2,3) g(1) disjI1 [OF conjI [OF s r]], of "''ap-northeast-1''"]
      dualstack_gating [OF c(2,3) g(2) disjI1 [OF conjI [OF s r]], of "''us-east-1''"]
      dualstack_gating [OF c(2,3) g(1) disjI2 [OF u], of postRequest]
    by (simp add: ec2Metadata_def s3Metadata_def dualStackEc2Regions_def hostPrefixStr_def
        rootOpts_def s3HostRouting_def getRootDomain_def startsWith_def truthyStr_def)
qed

text \<open>
  Claim C5 as stated fails for the storage service: it gets the dual-stack name in a region
  outside the only allow-list of the source, and in a region that does not exist.
\<close>

theorem s3_dualstack_every_region_counterexample:
  "''ap-northeast-1'' \<notin> dualStackEc2Regions \<and> ''mars-1'' \<notin> dualStackEc2Regions
   \<and> endpointOf (signingFetcher_prepare euFactory s3Metadata postRequest
       (rootOpts \<lparr> region := Some ''ap-northeast-1'' \<rparr>) ())
     = Inr ''https://s3.dualstack.ap-northeast-1.amazonaws.com''
   \<and> endpointOf (signingFetcher_prepare euFactory s3Metadata postRequest
       (rootOpts \<lparr> region := Some ''mars-1'' \<rparr>) ())
     = Inr ''https://s3.dualstack.mars-1.amazonaws.com''"
  by (simp add: signingFetcher_prepare_def endpointOf_def s3HostRouting_def Let_def
      euFactory_def s3Metadata_def rootOpts_def truthyOpt_def truthyStr_def
      resolveSigningRegion_def getRootDomain_def dualStackEc2Regions_def regionalEndpoint_def
      assembleEndpoint_def globalOr_def globalEndpointPrefix_def dualstackEndpointPrefix_def
      startsWith_def)

subsection \<open>The Query client\<close>

lemma foldl_URLSearchParams_append: "foldl URLSearchParams_append xs ps = xs @ ps"
  by (induction ps arbitrary: xs) (simp_all add: URLSearchParams_append_def)

lemma action_version_params:
  "URLSearchParams_set (URLSearchParams_set [] ''Action'' a) ''Version'' v
     = [(''Action'', a), (''Version'', v)]"
  by (simp add: URLSearchParams_set_def)

lemma intercalate_Cons:
  "intercalate sep (x # xs) = x @ concat (map (\<lambda>y. sep @ y) xs)"
  by (induction xs arbitrary: x) simp_all

lemma urlencode_names: "urlencode ''Action'' = ''Action''" "urlencode ''Version'' = ''Version''"
  by code_simp+

lemma query_wire:
  "URLSearchParams_toString ((''Action'', a) # (''Version'', v) # ps)
     = ''Action='' @ urlencode a @ ''&Version='' @ urlencode v
         @ concat (map (\<lambda>kv. ''&'' @ urlencode (fst kv) @ ''='' @ urlencode (snd kv)) ps)"
  by (simp add: URLSearchParams_toString_def intercalate_Cons urlencode_names comp_def)

lemma Base_recording:
  "BaseServiceClient_performRequest deps (recording f) config hdrs body (w, calls) =
     (case baseRequest config hdrs body of
        Inl e \<Rightarrow> (Inl e, [], (w, calls))
      | Inr request \<Rightarrow>
          (case f request (baseFetchOpts config) w of
             (answer, w1) \<Rightarrow>
               (case statusBranch deps config request answer of
                  (res, lines) \<Rightarrow>
                    (res, lines, (w1, calls @ [(request, baseFetchOpts config)])))))"
  by (simp add: BaseServiceClient_performRequest_def recording_def
      split: sum.splits prod.splits)

lemma baseRequest_body:
  "cfg_method config = None \<or> cfg_method config = Some POST \<Longrightarrow>
     baseRequest config hs (Some b)
       = Inr \<lparr> req_method = ''POST'',
               req_headers = hs @ [(''content-length'', show_nat (length b))],
               req_body = Some b \<rparr>"
  by (auto simp: baseRequest_def Headers_append_def)

lemma baseRequest_no_body:
  "baseRequest config hs None
     = Inr \<lparr> req_method = methodName (case cfg_method config of None \<Rightarrow> POST | Some m \<Rightarrow> m),
             req_headers = hs, req_body = None \<rparr>"
  by (simp add: baseRequest_def)

text \<open>
  Claim C7, as amended. For a Query/EC2 call whose body is a form-encoded parameter
  collection and whose method is \<open>POST\<close> (the default), the client hands its fetcher
  exactly one request: method \<open>POST\<close>; the caller's headers followed by
  \<open>accept: text/xml\<close>,
  \<open>content-type: application/x-www-form-urlencoded; charset=utf-8\<close> and the
  \<open>content-length\<close>; and as body the bytes of
  \<open>Action={action}&Version={version}\<close> followed by the caller's fields in their order,
  each form-encoded. The outcome is the branch on the status of what the fetcher answers.
  A parameter body with a method other than \<open>POST\<close> throws, and a present (truthy) body
  of any other type throws the usage error; in both cases the fetcher is not asked. An
  absent or falsy body (\<open>null\<close>, the empty string) raises no usage error: the call goes
  out without a body, with only \<open>accept: text/xml\<close> appended. The protocols \<open>query\<close>
  and \<open>ec2\<close> get this client, with the API version of the metadata.
\<close>

theorem query_client_contract:
  "(\<forall>ps. cfg_body config = Some (BodyParams ps)
          \<and> (cfg_method config = None \<or> cfg_method config = Some POST) \<longrightarrow>
      (let wire = ''Action='' @ urlencode (action config) @ ''&Version='' @ urlencode v
                    @ concat (map (\<lambda>kv. ''&'' @ urlencode (fst kv) @ ''='' @ urlencode (snd kv)) ps);
           request = \<lparr> req_method = ''POST'',
                        req_headers = callerHeaders config
                          @ [(''accept'', ''text/xml''),
                             (''content-type'', ''application/x-www-form-urlencoded; charset=utf-8''),
                             (''content-length'', show_nat (length wire))],
                        req_body = Some (map of_char wire) \<rparr>
       in performRequest deps (QueryServiceClient v (recording f)) config (w, [])
            = (case f request (baseFetchOpts config) w of
                 (answer, w1) \<Rightarrow>
                   (case statusBranch deps config request answer of
                      (res, lines) \<Rightarrow> (res, lines, (w1, [(request, baseFetchOpts config)]))))))
   \<and> (\<forall>ps m. cfg_body config = Some (BodyParams ps) \<and> cfg_method config = Some m
          \<and> m \<noteq> POST \<longrightarrow>
      performRequest deps (QueryServiceClient v (recording f)) config (w, [])
        = (Inl (JsError ''query is supposed to be POSTed''), [], (w, [])))
   \<and> (\<forall>b. cfg_body config = Some b \<and> (\<forall>ps. b \<noteq> BodyParams ps) \<and> truthyBody (Some b) \<longrightarrow>
      performRequest deps (QueryServiceClient v (recording f)) config (w, [])
        = (Inl (JsError ''BUG: non-query based request body passed to query client''), [],
           (w, [])))
   \<and> (\<not> truthyBody (cfg_body config) \<longrightarrow>
      (let request = \<lparr> req_method = methodName
                          (case cfg_method config of None \<Rightarrow> POST | Some m \<Rightarrow> m),
                        req_headers = callerHeaders config @ [(''accept'', ''text/xml'')],
                        req_body = None \<rparr>
       in performRequest deps (QueryServiceClient v (recording f)) config (w, [])
            = (case f request (baseFetchOpts config) w of
                 (answer, w1) \<Rightarrow>
                   (case statusBranch deps config request answer of
                      (res, lines) \<Rightarrow> (res, lines, (w1, [(request, baseFetchOpts config)]))))))
   \<and> (protocol meta = ''query'' \<or> protocol meta = ''ec2'' \<longrightarrow>
        wrapServiceClient meta f = Inr (QueryServiceClient (apiVersion meta) f))"
proof (intro conjI allI impI)
  fix ps
  assume a: "cfg_body config = Some (BodyParams ps)
          \<and> (cfg_method config = None \<or> cfg_method config = Some POST)"
  then have m: "(case cfg_method config of None \<Rightarrow> POST | Some m \<Rightarrow> m) = POST"
    by auto
  have b: "cfg_method config = None \<or> cfg_method config = Some POST" using a by simp
  show "(let wire = ''Action='' @ urlencode (action config) @ ''&Version='' @ urlencode v
                    @ concat (map (\<lambda>kv. ''&'' @ urlencode (fst kv) @ ''='' @ urlencode (snd kv)) ps);
           request = \<lparr> req_method = ''POST'',
                        req_headers = callerHeaders config
                          @ [(''accept'', ''text/xml''),
                             (''content-type'', ''application/x-www-form-urlencoded; charset=utf-8''),
                             (''content-length'', show_nat (length wire))],
                        req_body = Some (map of_char wire) \<rparr>
       in performRequest deps (QueryServiceClient v (recording f)) config (w, [])
            = (case f request (baseFetchOpts config) w of
                 (answer, w1) \<Rightarrow>
                   (case statusBranch deps config request answer of
                      (res, lines) \<Rightarrow> (res, lines, (w1, [(request, baseFetchOpts config)])))))"
    using a m
    by (simp add: QueryServiceClient_performRequest_def Let_def action_version_params
        foldl_URLSearchParams_append Headers_append_def callerHeaders_def Base_recording
        baseRequest_body [OF b] query_wire TextEncoder_encode_def)
next
  fix ps m
  assume "cfg_body config = Some (BodyParams ps) \<and> cfg_method config = Some m \<and> m \<noteq> POST"
  then show "performRequest deps (QueryServiceClient v (recording f)) config (w, [])
        = (Inl (JsError ''query is supposed to be POSTed''), [], (w, []))"
    by (simp add: QueryServiceClient_performRequest_def Let_def)
next
  fix b
  assume a: "cfg_body config = Some b \<and> (\<forall>ps. b \<noteq> BodyParams ps) \<and> truthyBody (Some b)"
  then show "performRequest deps (QueryServiceClient v (recording f)) config (w, [])
        = (Inl (JsError ''BUG: non-query based request body passed to query client''), [],
           (w, []))"
    by (cases b) (simp_all add: QueryServiceClient_performRequest_def Let_def)
next
  assume a: "\<not> truthyBody (cfg_body config)"
  have "QueryServiceClient_performRequest v deps (recording f) config (w, [])
          = BaseServiceClient_performRequest deps (recording f) config
              (callerHeaders config @ [(''accept'', ''text/xml'')]) None (w, [])"
  proof (cases "cfg_body config")
    case None
    then show ?thesis
      by (simp add: QueryServiceClient_performRequest_def Let_def Headers_append_def
          callerHeaders_def)
  next
    case (Some b)
    then show ?thesis using a
      by (cases b) (simp_all add: QueryServiceClient_performRequest_def Let_def
          Headers_append_def callerHeaders_def)
  qed
  then show "(let request = \<lparr> req_method = methodName
                          (case cfg_method config of None \<Rightarrow> POST | Some m \<Rightarrow> m),
                        req_headers = callerHeaders config @ [(''accept'', ''text/xml'')],
                        req_body = None \<rparr>
       in performRequest deps (QueryServiceClient v (recording f)) config (w, [])
            = (case f request (baseFetchOpts config) w of
                 (answer, w1) \<Rightarrow>
                   (case statusBranch deps config request answer of
                      (res, lines) \<Rightarrow> (res, lines, (w1, [(request, baseFetchOpts config)])))))"
    by (simp add: Base_recording baseRequest_no_body Let_def)
next
  assume "protocol meta = ''query'' \<or> protocol meta = ''ec2''"
  then show "wrapServiceClient meta f = Inr (QueryServiceClient (apiVersion meta) f)"
    by (auto simp: wrapServiceClient_def)
qed


lemma sendMessage_wire:
  "''Action='' @ urlencode ''SendMessage'' @ ''&Version='' @ urlencode ''2012-11-05''
     @ concat (map (\<lambda>kv. ''&'' @ urlencode (fst kv) @ ''='' @ urlencode (snd kv))
         [(''QueueUrl'', ''https://q/1''), (''MessageBody'', ''hi there'')])
   = ''Action=SendMessage&Version=2012-11-05&QueueUrl=https%3A%2F%2Fq%2F1&MessageBody=hi+there''"
  by code_simp

lemma sendMessage_bytes:
  "map of_char
     ''Action=SendMessage&Version=2012-11-05&QueueUrl=https%3A%2F%2Fq%2F1&MessageBody=hi+there''
   = sendMessageBytes"
  by code_simp

lemma statusBranch_ok:
  "responseCode config = None \<Longrightarrow>
     statusBranch deps config request (Inr responseOk) = (Inr responseOk, [])"
  by (simp add: statusBranch_def responseOk_def)

text \<open>
  The amended claim at a \<open>SendMessage\<close> call with two fields, with the request the
  fetcher receives byte by byte; at the same call with method \<open>GET\<close>; and at the same
  call with a byte body.
\<close>

theorem query_client_contract_witness:
  "performRequest stubCollaborators
       (QueryServiceClient ''2012-11-05'' (recording (answering responseOk)))
       sendMessageConfig ((), [])
     = (Inr responseOk, [],
        ((), [(\<lparr> req_method = ''POST'',
                  req_headers =
                    [(''accept'', ''text/xml''),
                     (''content-type'', ''application/x-www-form-urlencoded; charset=utf-8''),
                     (''content-length'', ''87'')],
                  req_body = Some sendMessageBytes \<rparr>,
               \<lparr> urlPath = ''/'', hostPrefix = None, skipSigning = False, region = None \<rparr>)]))
   \<and> performRequest stubCollaborators
       (QueryServiceClient ''2012-11-05'' (recording (answering responseOk)))
       (sendMessageConfig \<lparr> cfg_method := Some GET \<rparr>) ((), [])
     = (Inl (JsError ''query is supposed to be POSTed''), [], ((), []))
   \<and> performRequest stubCollaborators
       (QueryServiceClient ''2012-11-05'' (recording (answering responseOk)))
       (sendMessageConfig \<lparr> cfg_body := Some (BodyBytes [123, 125]) \<rparr>) ((), [])
     = (Inl (JsError ''BUG: non-query based request body passed to query client''), [],
        ((), []))
   \<and> wrapServiceClient sqsMetadata (answering responseOk)
     = Inr (QueryServiceClient ''2012-11-05'' (answering responseOk))"
proof -
  have c: "cfg_body sendMessageConfig
             = Some (BodyParams [(''QueueUrl'', ''https://q/1''), (''MessageBody'', ''hi there'')])"
    "cfg_method sendMessageConfig = None" "action sendMessageConfig = ''SendMessage''"
    "callerHeaders sendMessageConfig = []" "responseCode sendMessageConfig = None"
    "baseFetchOpts sendMessageConfig
       = \<lparr> urlPath = ''/'', hostPrefix = None, skipSigning = False, region = None \<rparr>"
    by (simp_all add: sendMessageConfig_def configDefault_def callerHeaders_def
        baseFetchOpts_def)
  have n: "show_nat 87 = ''87''" by code_simp
  have l: "length
     ''Action=SendMessage&Version=2012-11-05&QueueUrl=https%3A%2F%2Fq%2F1&MessageBody=hi+there''
     = 87" by simp
  have p: "cfg_body sendMessageConfig
             = Some (BodyParams [(''QueueUrl'', ''https://q/1''), (''MessageBody'', ''hi there'')])
           \<and> (cfg_method sendMessageConfig = None \<or> cfg_method sendMessageConfig = Some POST)"
    by (simp add: c)
  have first: "performRequest stubCollaborators
       (QueryServiceClient ''2012-11-05'' (recording (answering responseOk)))
       sendMessageConfig ((), [])
     = (Inr responseOk, [],
        ((), [(\<lparr> req_method = ''POST'',
                  req_headers =
                    [(''accept'', ''text/xml''),
                     (''content-type'', ''application/x-www-form-urlencoded; charset=utf-8''),
                     (''content-length'', ''87'')],
                  req_body = Some sendMessageBytes \<rparr>,
               \<lparr> urlPath = ''/'', hostPrefix = None, skipSigning = False, region = None \<rparr>)]))"
    using query_client_contract [of sendMessageConfig "''2012-11-05''" stubCollaborators
        "answering responseOk" "()" sqsMetadata, THEN conjunct1, rule_format, OF p]
    unfolding Let_def c(3,4,6) sendMessage_wire sendMessage_bytes l n
    by (simp add: answering_def statusBranch_ok c(5))
  show ?thesis
    using first
      query_client_contract [of "sendMessageConfig \<lparr> cfg_method := Some GET \<rparr>"
        "''2012-11-05''" stubCollaborators "answering responseOk" "()" sqsMetadata]
      query_client_contract [of "sendMessageConfig \<lparr> cfg_body := Some (BodyBytes [123, 125]) \<rparr>"
        "''2012-11-05''" stubCollaborators "answering responseOk" "()" sqsMetadata]
    by (simp add: c sqsMetadata_def)
qed

text \<open>
  Claim C7 as stated fails in three places. A body that is the empty string is of another
  type and raises no usage error: the call goes out without a body. The content type the
  request carries is not \<open>application/x-www-form-urlencoded\<close> but that text with the
  parameter \<open>; charset=utf-8\<close>. The headers are appended, not set: with an \<open>accept\<close>
  header of the caller the request carries \<open>application/json, text/xml\<close>.
\<close>

theorem query_client_counterexample:
  "performRequest stubCollaborators
       (QueryServiceClient ''2012-11-05'' (recording (answering responseOk)))
       (sendMessageConfig \<lparr> cfg_body := Some (BodyValue (JStr [])) \<rparr>) ((), [])
     = (Inr responseOk, [],
        ((), [(\<lparr> req_method = ''POST'', req_headers = [(''accept'', ''text/xml'')],
                  req_body = None \<rparr>,
               \<lparr> urlPath = ''/'', hostPrefix = None, skipSigning = False, region = None \<rparr>)]))
   \<and> map (\<lambda>r. Headers_get (req_headers r) ''content-type'')
        (sentRequests (performRequest stubCollaborators
           (QueryServiceClient ''2012-11-05'' (recording (answering responseOk)))
           sendMessageConfig ((), [])))
     = [Some ''application/x-www-form-urlencoded; charset=utf-8'']
   \<and> map (\<lambda>r. Headers_get (req_headers r) ''accept'')
        (sentRequests (performRequest stubCollaborators
           (QueryServiceClient ''2012-11-05'' (recording (answering responseOk)))
           (sendMessageConfig \<lparr> cfg_headers := Some [(''accept'', ''application/json'')] \<rparr>)
           ((), [])))
     = [Some ''application/json, text/xml'']"
  by code_simp

subsection \<open>The JSON client\<close>










end
